theory Spec2Isabelle
  imports Complex_Main
begin

section \<open>goban.py: the geometry of a Go board as drawing primitives\<close>

text \<open>
  The development embeds \<^verbatim>\<open>src/goban.py\<close>. Conventions of the embedding:
  \<^item> Python floats are idealised as \<^typ>\<open>real\<close> (no rounding); the options the
    constructor's docstring types as float are \<^typ>\<open>real\<close>, those it types as int and
    the line counts are \<^typ>\<open>int\<close>. Integer \<^verbatim>\<open>/\<close> and \<^verbatim>\<open>%\<close> (Python 2) are
    \<open>div\<close> and \<open>mod\<close>, which floor as Python does.
  \<^item> Every \<^verbatim>\<open>raise\<close> is a value \<open>Inl e\<close> of \<open>error + 'a\<close>; an exception abandons
    the object under construction or being drawn, as it does in \<^verbatim>\<open>main\<close>.
  \<^item> The svgwrite drawing is the ordered list of the primitives added to it, with the
    size and viewBox it was created with. \<^verbatim>\<open>"%f%s" % (x, unit)\<close> is kept as the pair
    \<open>(x, unit)\<close>, and \<^verbatim>\<open>'%d' % x\<close> as the integer obtained by truncation.
\<close>

subsection \<open>Data\<close>

datatype error =
    Exception string
  | ValueError string
  | TypeError
  | IndexError
  | AttributeError

type_synonym point = "real \<times> real"

datatype primitive =
    is_Rect: Rect point point string real string real real
  | is_Line: Line "real list" "real list" string real
  | is_Circle: Circle point real string string real

text \<open>
  \<open>Rect insert size stroke stroke_width fill rx ry\<close>,
  \<open>Line start end stroke stroke_width\<close> and
  \<open>Circle center r fill stroke stroke_width\<close>, with the arguments in the order the
  source passes them.
\<close>

record drawing =
  size_attr :: "(real \<times> string) \<times> (real \<times> string)"
  viewBox :: "int \<times> int \<times> int \<times> int"
  elements :: "primitive list"

record colors =
  cut_stroke :: string
  mark_stroke :: string
  background :: string

record output_names =
  goban :: string
  test :: string

record size_opts =
  lines_horizontal :: int
  lines_vertical :: int
  star_points :: "(int \<times> int) list"

record options = size_opts +
  border :: bool
  margin :: real
  rounded_corners :: real
  spacing_horizontal :: real
  spacing_vertical :: real
  linewidth :: real
  multiple_lines :: int
  multiple_lines_spacing :: real
  star_diameter :: real
  unit :: string
  colors :: colors
  output_opt :: output_names
  half_board :: bool

record GoBoard = options +
  width :: real
  height :: real
  drawing :: "drawing option"

subsection \<open>Option tables (lines 8-40) and their composition in main (lines 335-343)\<close>

definition sizeOptions :: "string \<Rightarrow> size_opts option" where
  "sizeOptions key =
    (if key = ''7'' then Some \<lparr>lines_horizontal = 7, lines_vertical = 7,
        star_points = [(2, 2), (4, 2), (2, 4), (4, 4)]\<rparr>
     else if key = ''9'' then Some \<lparr>lines_horizontal = 9, lines_vertical = 9,
        star_points = [(2, 2), (6, 2), (4, 4), (2, 6), (6, 6)]\<rparr>
     else if key = ''13'' then Some \<lparr>lines_horizontal = 13, lines_vertical = 13,
        star_points = [(3, 3), (9, 3), (6, 6), (3, 9), (9, 9)]\<rparr>
     else if key = ''19'' then Some \<lparr>lines_horizontal = 19, lines_vertical = 19,
        star_points = [(3, 3), (9, 3), (15, 3), (3, 9), (9, 9), (15, 9),
                       (3, 15), (9, 15), (15, 15)]\<rparr>
     else None)"

text \<open>
  \<^verbatim>\<open>options.update(DefaultOptions)\<close>: the entry of the size table enriched with the
  defaults. \<^verbatim>\<open>half_board\<close> is not a default; line 341 sets it from the command line.
\<close>

definition DefaultOptions :: "size_opts \<Rightarrow> bool \<Rightarrow> options" where
  "DefaultOptions so hb =
    \<lparr>lines_horizontal = lines_horizontal so,
     lines_vertical = lines_vertical so,
     star_points = star_points so,
     border = True,
     margin = 15,
     rounded_corners = 10,
     spacing_horizontal = 22,
     spacing_vertical = 237 / 10,
     linewidth = 15 / 100,
     multiple_lines = 2,
     multiple_lines_spacing = 25 / 100,
     star_diameter = 4,
     unit = ''mm'',
     colors = \<lparr>cut_stroke = ''black'', mark_stroke = ''red'', background = ''white''\<rparr>,
     output_opt = \<lparr>goban = ''goban.svg'', test = ''test.svg''\<rparr>,
     half_board = hb\<rparr>"

definition main_options :: "string \<Rightarrow> bool \<Rightarrow> bool \<Rightarrow> int \<Rightarrow> options option" where
  "main_options size_key hb no_border rc =
    (case sizeOptions size_key of
       None \<Rightarrow> None
     | Some so \<Rightarrow>
         Some ((DefaultOptions so hb)\<lparr>border := \<not> no_border, rounded_corners := of_int rc\<rparr>))"

subsection \<open>Control\<close>

definition ebind :: "error + 'a \<Rightarrow> ('a \<Rightarrow> error + 'b) \<Rightarrow> error + 'b" where
  "ebind m f = (case m of Inl e \<Rightarrow> Inl e | Inr x \<Rightarrow> f x)"

text \<open>A \<^verbatim>\<open>for x in xs\<close> loop over a state; an exception in the body ends the loop.\<close>

fun for_loop :: "'a list \<Rightarrow> ('a \<Rightarrow> 's \<Rightarrow> error + 's) \<Rightarrow> 's \<Rightarrow> error + 's" where
  "for_loop [] body s = Inr s"
| "for_loop (x # xs) body s = ebind (body x s) (for_loop xs body)"

text \<open>\<^verbatim>\<open>range(n)\<close>: empty when \<open>n \<le> 0\<close>.\<close>

definition range_py :: "int \<Rightarrow> int list" where
  "range_py n = map int [0..<nat n]"

text \<open>\<^verbatim>\<open>'%d' % x\<close> of a float truncates towards zero.\<close>

definition trunc :: "real \<Rightarrow> int" where
  "trunc x = (if 0 \<le> x then \<lfloor>x\<rfloor> else \<lceil>x\<rceil>)"

subsection \<open>The constructor (lines 44-93)\<close>

text \<open>
  \<^verbatim>\<open>self.__dict__.update(opt)\<close> makes every option an attribute; the object is the
  options record extended by \<open>width\<close>, \<open>height\<close> and \<open>drawing\<close>.
\<close>

definition init_warns :: "options \<Rightarrow> bool" where
  "init_warns opt \<longleftrightarrow> margin opt < rounded_corners opt"

definition GoBoard_init :: "options \<Rightarrow> error + GoBoard" where
  "GoBoard_init opt =
    (let w = real_of_int (lines_horizontal opt - 1) * spacing_horizontal opt
               + linewidth opt + margin opt * 2
     in
       if half_board opt then
         if lines_vertical opt mod 2 = 0 then
           Inl (Exception
             ''The half board option only works with an odd number of vertical lines.'')
         else
           let lv = (lines_vertical opt + 1) div 2;
               h = real_of_int (lv - 1) * spacing_vertical opt + linewidth opt + margin opt
           in Inr (options.extend (opt\<lparr>lines_vertical := lv\<rparr>)
                     (GoBoard.fields w h None))
       else
         let h = real_of_int (lines_vertical opt - 1) * spacing_vertical opt
                   + linewidth opt + margin opt * 2
         in Inr (options.extend opt (GoBoard.fields w h None)))"

subsection \<open>Drawing (lines 95-248)\<close>

text \<open>
  \<^verbatim>\<open>self.drawing.add(...)\<close>: while \<^verbatim>\<open>self.drawing\<close> is \<^verbatim>\<open>None\<close> the attribute
  lookup on it raises.
\<close>

definition add :: "primitive \<Rightarrow> GoBoard \<Rightarrow> error + GoBoard" where
  "add p self =
    (case drawing self of
       None \<Rightarrow> Inl AttributeError
     | Some d \<Rightarrow> Inr (self\<lparr>drawing := Some (d\<lparr>elements := elements d @ [p]\<rparr>)\<rparr>))"

text \<open>
  \<open>dir_count\<close> is the tuple index along which the strokes are spread; the program only
  passes 0 and 1. An index beyond the list raises at \<^verbatim>\<open>start_o[dir_count] += offset\<close>.
\<close>

definition draw_multiple_lines ::
  "GoBoard \<Rightarrow> real list \<Rightarrow> real list \<Rightarrow> nat \<Rightarrow> error + GoBoard" where
  "draw_multiple_lines self0 start endp dir_count =
    for_loop (range_py (multiple_lines self0))
      (\<lambda>l self.
         let offset = (real_of_int l - real_of_int (multiple_lines self) / 2)
                        * multiple_lines_spacing self
         in if dir_count < length start \<and> dir_count < length endp then
              add (Line (start[dir_count := start ! dir_count + offset])
                        (endp[dir_count := endp ! dir_count + offset])
                        (mark_stroke (colors self)) (linewidth self)) self
            else Inl IndexError)
      self0"

definition draw_starpoint :: "GoBoard \<Rightarrow> point \<Rightarrow> error + GoBoard" where
  "draw_starpoint self0 pos =
    for_loop (range_py (multiple_lines self0))
      (\<lambda>l self.
         let diameter = star_diameter self
                          + real_of_int (l - multiple_lines self) * multiple_lines_spacing self
         in add (Circle pos (diameter / 2) ''none''
                   (mark_stroke (colors self)) (linewidth self)) self)
      self0"

definition draw_starpoints :: "GoBoard \<Rightarrow> real list \<Rightarrow> error + GoBoard" where
  "draw_starpoints self0 start =
    (let vert_pos_offset = (if half_board self0 then lines_vertical self0 - 1 else 0)
     in for_loop (star_points self0)
          (\<lambda>point0 self.
             let point = (fst point0, snd point0 - vert_pos_offset)
             in if snd point \<ge> 0 then
                  if length start < 2 then Inl IndexError
                  else
                    let center =
                      (start ! 0 + real_of_int (fst point) * spacing_horizontal self
                         - multiple_lines_spacing self / 2,
                       start ! 1 + real_of_int (snd point) * spacing_vertical self
                         - multiple_lines_spacing self / 2)
                    in draw_starpoint self center
                else Inr self)
          self0)"

text \<open>
  One iteration of the loop of \<open>draw_lines\<close> (lines 178-189). The loop carries the
  local list \<open>start\<close>, which it moves by \<open>spacing\<close> after each line, together with
  the object.
\<close>

definition draw_lines_step ::
  "nat \<Rightarrow> nat \<Rightarrow> real \<Rightarrow> real \<Rightarrow> int \<Rightarrow> real list \<times> GoBoard
     \<Rightarrow> error + real list \<times> GoBoard" where
  "draw_lines_step dir_line dir_count line_length spacing i st =
    (case st of (start, self) \<Rightarrow>
       let endp = start[dir_line := start ! dir_line + line_length]
       in ebind (draw_multiple_lines self start endp dir_count)
            (\<lambda>self'. Inr (start[dir_count := start ! dir_count + spacing], self')))"

definition draw_lines :: "GoBoard \<Rightarrow> real list \<Rightarrow> string \<Rightarrow> error + GoBoard" where
  "draw_lines self0 start0 direction =
    (if length start0 \<noteq> 2 then Inl (ValueError ''start must be a tuple of 2 values'')
     else
       ebind
         (if direction = ''vertical'' then
            Inr (lines_vertical self0, spacing_vertical self0,
                 spacing_horizontal self0 * real_of_int (lines_horizontal self0 - 1),
                 0::nat, 1::nat)
          else if direction = ''horizontal'' then
            Inr (lines_horizontal self0, spacing_horizontal self0,
                 spacing_vertical self0 * real_of_int (lines_vertical self0 - 1),
                 1, 0)
          else Inl (Exception ''Directions can only be horizontal or vertical''))
         (\<lambda>(line_count, spacing, line_length, dir_line, dir_count).
            ebind
              (for_loop (range_py line_count)
                 (draw_lines_step dir_line dir_count line_length spacing)
                 (start0, self0))
              (\<lambda>(start, self). Inr self)))"

definition draw :: "GoBoard \<Rightarrow> error + GoBoard" where
  "draw self0 =
    (let d = \<lparr>size_attr = ((width self0, unit self0), (height self0, unit self0)),
              viewBox = (0, 0, trunc (width self0), trunc (height self0)),
              elements = []\<rparr>;
         self1 = self0\<lparr>drawing := Some d\<rparr>
     in
       ebind
         (if border self1 then
            let borderwidth = width self1 - linewidth self1;
                (borderpos, borderheight) =
                  (if half_board self1 then
                     ((0, - rounded_corners self1),
                      height self1 - linewidth self1 + rounded_corners self1)
                   else ((0, 0), height self1 - linewidth self1))
            in ebind
                 (add (Rect borderpos (borderwidth, borderheight)
                         (cut_stroke (colors self1)) (linewidth self1)
                         (background (colors self1))
                         (rounded_corners self1) (rounded_corners self1)) self1)
                 (\<lambda>self2.
                    if half_board self2 then
                      add (Line [0, 0] [width self2, 0]
                             (cut_stroke (colors self2)) (linewidth self2)) self2
                    else Inr self2)
          else Inr self1)
         (\<lambda>self3.
            let start = (if half_board self3 then [margin self3, 0]
                         else [margin self3, margin self3])
            in ebind (draw_lines self3 start ''vertical'')
                 (\<lambda>self4. ebind (draw_lines self4 start ''horizontal'')
                    (\<lambda>self5. draw_starpoints self5 start))))"

subsection \<open>The calibration sheet (lines 263-307)\<close>

text \<open>
  \<open>draw_test\<close> calls \<^verbatim>\<open>self.draw_multiple_lines\<close> with five positional arguments
  of several types, so this one call site is modelled on argument values. Python
  binds the arguments to the parameters of the method before it runs the body and
  raises TypeError when their numbers differ; the method (line 191) has the three
  parameters \<^verbatim>\<open>start\<close>, \<^verbatim>\<open>end\<close> and \<^verbatim>\<open>dir_count\<close> besides \<^verbatim>\<open>self\<close>.
\<close>

datatype pyval = PyInt int | PyFloat real | PySeq "real list"

text \<open>
  \<^verbatim>\<open>xs[i]\<close> on a list of length \<open>n\<close>: a negative index counts from the end, and an
  index outside the list raises IndexError (here \<open>None\<close>).
\<close>

definition py_index :: "int \<Rightarrow> nat \<Rightarrow> nat option" where
  "py_index i n =
    (let j = (if i < 0 then i + int n else i)
     in if 0 \<le> j \<and> j < int n then Some (nat j) else None)"

text \<open>
  The body of \<^verbatim>\<open>draw_multiple_lines\<close> (lines 200-212) on argument values:
  \<^verbatim>\<open>list(start)\<close> and \<^verbatim>\<open>list(end)\<close> raise TypeError on a number, and so does an
  index that is not an integer. Nothing is raised when the loop does not run.
\<close>

definition draw_multiple_lines_py ::
  "GoBoard \<Rightarrow> pyval \<Rightarrow> pyval \<Rightarrow> pyval \<Rightarrow> error + GoBoard" where
  "draw_multiple_lines_py self0 start endp dir_count =
    for_loop (range_py (multiple_lines self0))
      (\<lambda>l self.
         case start of
           PySeq start_o \<Rightarrow>
             (case endp of
                PySeq end_o \<Rightarrow>
                  let offset = (real_of_int l - real_of_int (multiple_lines self) / 2)
                                 * multiple_lines_spacing self
                  in (case dir_count of
                        PyInt dc \<Rightarrow>
                          (case py_index dc (length start_o) of
                             None \<Rightarrow> Inl IndexError
                           | Some i \<Rightarrow>
                               (case py_index dc (length end_o) of
                                  None \<Rightarrow> Inl IndexError
                                | Some j \<Rightarrow>
                                    add (Line (start_o[i := start_o ! i + offset])
                                              (end_o[j := end_o ! j + offset])
                                              (mark_stroke (colors self)) (linewidth self))
                                      self))
                      | _ \<Rightarrow> Inl TypeError)
              | _ \<Rightarrow> Inl TypeError)
         | _ \<Rightarrow> Inl TypeError)
      self0"

definition call_draw_multiple_lines :: "GoBoard \<Rightarrow> pyval list \<Rightarrow> error + GoBoard" where
  "call_draw_multiple_lines self args =
    (case args of
       [start, endp, dir_count] \<Rightarrow> draw_multiple_lines_py self start endp dir_count
     | _ \<Rightarrow> Inl TypeError)"

text \<open>
  \<open>draw_test\<close> itself. svgwrite places a rectangle without \<^verbatim>\<open>insert\<close> at \<open>(0, 0)\<close>.
  In the loop \<open>start\<close> is the tuple \<^verbatim>\<open>(margin, margin)\<close>, so after the call
  \<^verbatim>\<open>start[dir_count] += spacing\<close> (line 307) raises TypeError: a tuple has no item
  assignment.
\<close>

definition draw_test :: "GoBoard \<Rightarrow> error + GoBoard" where
  "draw_test self0 =
    (let lines = [(2, 1 / 10), (2, 2 / 10), (2, 3 / 10), (2, 4 / 10), (2, 5 / 10),
                  (3, 1 / 10), (3, 2 / 10), (3, 3 / 10), (3, 4 / 10), (3, 5 / 10)];
         margin = (10::int);
         line_length = (10::int);
         spacing = (10::int);
         width = line_length + 2 * margin;
         height = int (length lines) * spacing + margin * 2;
         d = \<lparr>size_attr = ((real_of_int width, unit self0), (real_of_int height, unit self0)),
              viewBox = (0, 0, width, height),
              elements = []\<rparr>;
         self1 = self0\<lparr>drawing := Some d\<rparr>
     in
       ebind
         (add (Rect (0, 0) (real_of_int width, real_of_int height)
                 (cut_stroke (colors self1)) (linewidth self1)
                 (background (colors self1))
                 (rounded_corners self1) (rounded_corners self1)) self1)
         (\<lambda>self2.
            let start = (margin, margin);
                dir_line = (0::nat);
                dir_count = (1::nat)
            in for_loop (range_py (int (length lines)))
                 (\<lambda>i self.
                    let end0 = [real_of_int (fst start), real_of_int (snd start)];
                        endp = end0[dir_line := end0 ! dir_line + real_of_int line_length];
                        multiple_lines = fst (lines ! nat i);
                        multiple_lines_spacing = snd (lines ! nat i)
                    in ebind
                         (call_draw_multiple_lines self
                            [PySeq [real_of_int (fst start), real_of_int (snd start)],
                             PySeq endp, PyInt multiple_lines,
                             PyFloat multiple_lines_spacing, PyInt (int dir_count)])
                         (\<lambda>self'. Inl TypeError))
                 self2))"

subsection \<open>A run (lines 345-350)\<close>

definition run :: "options \<Rightarrow> bool \<Rightarrow> error + GoBoard" where
  "run opt test_flag =
    ebind (GoBoard_init opt) (\<lambda>b. if test_flag then draw_test b else draw b)"

subsection \<open>Observing a drawing\<close>

text \<open>
  \<open>prims_of\<close> reads the primitives added so far, \<open>emit\<close> is the object after further
  primitives were added, and \<open>blank\<close> is the object with the fresh drawing that \<open>draw\<close>
  creates first. The \<open>spec_\<close> functions are the closed forms the specification gives
  for the loops: the strokes of one logical line, the circles of one star point, the
  centre lines of the grid, the border; the lemmas below compare them with the loops
  of the source.
\<close>

definition emit :: "primitive list \<Rightarrow> GoBoard \<Rightarrow> GoBoard" where
  "emit ps self =
    (case drawing self of
       None \<Rightarrow> self
     | Some d \<Rightarrow> self\<lparr>drawing := Some (d\<lparr>elements := elements d @ ps\<rparr>)\<rparr>)"

definition prims_of :: "GoBoard \<Rightarrow> primitive list" where
  "prims_of self = (case drawing self of None \<Rightarrow> [] | Some d \<Rightarrow> elements d)"

definition spec_strokes :: "GoBoard \<Rightarrow> real list \<times> real list \<times> nat \<Rightarrow> primitive list" where
  "spec_strokes self c =
    (case c of (start, endp, dir_count) \<Rightarrow>
      map (\<lambda>l. let offset = (real_of_int l - real_of_int (multiple_lines self) / 2)
                              * multiple_lines_spacing self
               in Line (start[dir_count := start ! dir_count + offset])
                       (endp[dir_count := endp ! dir_count + offset])
                       (mark_stroke (colors self)) (linewidth self))
          (range_py (multiple_lines self)))"

definition spec_circles :: "GoBoard \<Rightarrow> point \<Rightarrow> primitive list" where
  "spec_circles self pos =
     map (\<lambda>l. Circle pos ((star_diameter self
                          + real_of_int (l - multiple_lines self) * multiple_lines_spacing self) / 2) ''none''
                   (mark_stroke (colors self)) (linewidth self))
         (range_py (multiple_lines self))"

definition spec_stars :: "GoBoard \<Rightarrow> real list \<Rightarrow> primitive list" where
  "spec_stars self start =
    concat (map (\<lambda>(gx, gy).
        let gy' = gy - (if half_board self then lines_vertical self - 1 else 0)
        in if gy' \<ge> 0 then
             spec_circles self
               (start ! 0 + real_of_int gx * spacing_horizontal self
                  - multiple_lines_spacing self / 2,
                start ! 1 + real_of_int gy' * spacing_vertical self
                  - multiple_lines_spacing self / 2)
           else [])
      (star_points self))"

definition spec_line_at ::
  "real list \<Rightarrow> nat \<Rightarrow> nat \<Rightarrow> real \<Rightarrow> real \<Rightarrow> nat \<Rightarrow> real list \<times> real list \<times> nat" where
  "spec_line_at start dir_line dir_count line_length spacing k =
    (let s = start[dir_count := start ! dir_count + real k * spacing]
     in (s, s[dir_line := s ! dir_line + line_length], dir_count))"

definition spec_origin :: "GoBoard \<Rightarrow> real list" where
  "spec_origin self = (if half_board self then [margin self, 0] else [margin self, margin self])"

definition spec_vertical_lines :: "GoBoard \<Rightarrow> real list \<Rightarrow> (real list \<times> real list \<times> nat) list" where
  "spec_vertical_lines self start =
     map (spec_line_at start 0 1 (spacing_horizontal self * real_of_int (lines_horizontal self - 1))
            (spacing_vertical self))
         [0..<nat (lines_vertical self)]"

definition spec_horizontal_lines :: "GoBoard \<Rightarrow> real list \<Rightarrow> (real list \<times> real list \<times> nat) list" where
  "spec_horizontal_lines self start =
     map (spec_line_at start 1 0 (spacing_vertical self * real_of_int (lines_vertical self - 1))
            (spacing_horizontal self))
         [0..<nat (lines_horizontal self)]"

definition spec_border :: "GoBoard \<Rightarrow> primitive list" where
  "spec_border self =
    (if border self then
       (if half_board self then
          [Rect (0, - rounded_corners self)
             (width self - linewidth self, height self - linewidth self + rounded_corners self)
             (cut_stroke (colors self)) (linewidth self) (background (colors self))
             (rounded_corners self) (rounded_corners self),
           Line [0, 0] [width self, 0] (cut_stroke (colors self)) (linewidth self)]
        else
          [Rect (0, 0) (width self - linewidth self, height self - linewidth self)
             (cut_stroke (colors self)) (linewidth self) (background (colors self))
             (rounded_corners self) (rounded_corners self)])
     else [])"

definition blank :: "GoBoard \<Rightarrow> GoBoard" where
  "blank self =
     self\<lparr>drawing := Some \<lparr>size_attr = ((width self, unit self), (height self, unit self)),
              viewBox = (0, 0, trunc (width self), trunc (height self)),
              elements = []\<rparr>\<rparr>"

section \<open>The loops and their closed forms\<close>

lemma emit_Nil [simp]: "emit [] self = self"
  by (simp add: emit_def split: option.splits)

lemma emit_emit [simp]: "emit qs (emit ps self) = emit (ps @ qs) self"
  by (simp add: emit_def split: option.splits)

lemma emit_fields [simp]:
  "lines_horizontal (emit ps self) = lines_horizontal self"
  "lines_vertical (emit ps self) = lines_vertical self"
  "star_points (emit ps self) = star_points self"
  "border (emit ps self) = border self"
  "margin (emit ps self) = margin self"
  "rounded_corners (emit ps self) = rounded_corners self"
  "spacing_horizontal (emit ps self) = spacing_horizontal self"
  "spacing_vertical (emit ps self) = spacing_vertical self"
  "linewidth (emit ps self) = linewidth self"
  "multiple_lines (emit ps self) = multiple_lines self"
  "multiple_lines_spacing (emit ps self) = multiple_lines_spacing self"
  "star_diameter (emit ps self) = star_diameter self"
  "unit (emit ps self) = unit self"
  "colors (emit ps self) = colors self"
  "half_board (emit ps self) = half_board self"
  "width (emit ps self) = width self"
  "height (emit ps self) = height self"
  by (simp_all add: emit_def split: option.splits)

lemma drawing_emit [simp]:
  "drawing (emit ps self) = map_option (\<lambda>d. d\<lparr>elements := elements d @ ps\<rparr>) (drawing self)"
  by (simp add: emit_def split: option.splits)

lemma prims_of_emit: "drawing self \<noteq> None \<Longrightarrow> prims_of (emit ps self) = prims_of self @ ps"
  by (auto simp: prims_of_def)

lemma add_emit: "drawing self \<noteq> None \<Longrightarrow> add p self = Inr (emit [p] self)"
  by (auto simp: add_def emit_def)

lemma ebind_Inr [simp]: "ebind (Inr x) f = f x"
  by (simp add: ebind_def)

lemma ebind_Inl [simp]: "ebind (Inl e) f = Inl e"
  by (simp add: ebind_def)

lemma for_loop_emit:
  assumes "\<And>x ps. x \<in> set xs \<Longrightarrow> body x (emit ps self) = Inr (emit (ps @ g x) self)"
  shows "for_loop xs body (emit ps self) = Inr (emit (ps @ concat (map g xs)) self)"
  using assms by (induction xs arbitrary: ps) simp_all

lemma for_loop_emit0:
  assumes "\<And>x ps. x \<in> set xs \<Longrightarrow> body x (emit ps self) = Inr (emit (ps @ g x) self)"
  shows "for_loop xs body self = Inr (emit (concat (map g xs)) self)"
  using for_loop_emit [of xs body self g "[]"] assms by simp

lemma draw_multiple_lines_emit:
  assumes "drawing self \<noteq> None" "dir_count < length start" "dir_count < length endp"
  shows "draw_multiple_lines self start endp dir_count = Inr (emit (spec_strokes self (start, endp, dir_count)) self)"
proof -
  have "draw_multiple_lines self start endp dir_count
      = Inr (emit (concat (map (\<lambda>l. [Line (start[dir_count := start ! dir_count + (real_of_int l - real_of_int (multiple_lines self) / 2) * multiple_lines_spacing self])
                       (endp[dir_count := endp ! dir_count + (real_of_int l - real_of_int (multiple_lines self) / 2) * multiple_lines_spacing self])
                       (mark_stroke (colors self)) (linewidth self)]) (range_py (multiple_lines self)))) self)"
    unfolding draw_multiple_lines_def
    by (rule for_loop_emit0) (use assms in \<open>simp add: add_emit Let_def\<close>)
  then show ?thesis
    by (simp add: spec_strokes_def Let_def)
qed

lemma draw_starpoint_emit:
  assumes "drawing self \<noteq> None"
  shows "draw_starpoint self pos = Inr (emit (spec_circles self pos) self)"
proof -
  have "draw_starpoint self pos
      = Inr (emit (concat (map (\<lambda>l. [Circle pos ((star_diameter self
                          + real_of_int (l - multiple_lines self) * multiple_lines_spacing self) / 2) ''none''
                   (mark_stroke (colors self)) (linewidth self)]) (range_py (multiple_lines self)))) self)"
    unfolding draw_starpoint_def
    by (rule for_loop_emit0) (use assms in \<open>simp add: add_emit Let_def\<close>)
  then show ?thesis
    by (simp add: spec_circles_def)
qed

lemma draw_starpoints_emit:
  assumes "drawing self \<noteq> None" "2 \<le> length start"
  shows "draw_starpoints self start = Inr (emit (spec_stars self start) self)"
  unfolding draw_starpoints_def spec_stars_def Let_def
  by (rule for_loop_emit0) (use assms in \<open>auto simp: draw_starpoint_emit spec_circles_def\<close>)

lemma spec_strokes_emit [simp]: "spec_strokes (emit ps self) c = spec_strokes self c"
  by (simp add: spec_strokes_def split: prod.splits)

lemma draw_lines_loop:
  assumes "drawing self \<noteq> None" "dir_count < length start" "dir_line < length start"
  shows "for_loop xs
           (draw_lines_step dir_line dir_count line_length spacing)
           (start, emit ps self)
         = Inr (start[dir_count := start ! dir_count + real (length xs) * spacing],
                emit (ps @ concat (map (\<lambda>k. spec_strokes self
                        (spec_line_at start dir_line dir_count line_length spacing k))
                      [0..<length xs])) self)"
  using assms
proof (induction xs arbitrary: start ps)
  case Nil
  then show ?case by simp
next
  case (Cons x xs)
  let ?s' = "start[dir_count := start ! dir_count + spacing]"
  have shift: "spec_line_at ?s' dir_line dir_count line_length spacing k
             = spec_line_at start dir_line dir_count line_length spacing (Suc k)" for k
    using Cons.prems by (simp add: spec_line_at_def algebra_simps)
  have l0: "spec_line_at start dir_line dir_count line_length spacing 0
          = (start, start[dir_line := start ! dir_line + line_length], dir_count)"
    by (simp add: spec_line_at_def)
  have upd: "?s'[dir_count := ?s' ! dir_count + real (length xs) * spacing]
           = start[dir_count := start ! dir_count + real (length (x # xs)) * spacing]"
    using Cons.prems by (simp add: algebra_simps)
  have ih: "for_loop xs
           (draw_lines_step dir_line dir_count line_length spacing)
           (?s', emit (ps @ spec_strokes self (spec_line_at start dir_line dir_count line_length spacing 0)) self)
         = Inr (?s'[dir_count := ?s' ! dir_count + real (length xs) * spacing],
                emit ((ps @ spec_strokes self (spec_line_at start dir_line dir_count line_length spacing 0))
                      @ concat (map (\<lambda>k. spec_strokes self
                        (spec_line_at ?s' dir_line dir_count line_length spacing k))
                      [0..<length xs])) self)"
    by (rule Cons.IH) (use Cons.prems in simp_all)
  have maps: "concat (map (\<lambda>k. spec_strokes self
                        (spec_line_at start dir_line dir_count line_length spacing k))
                      [0..<length (x # xs)])
            = spec_strokes self (spec_line_at start dir_line dir_count line_length spacing 0)
              @ concat (map (\<lambda>k. spec_strokes self
                        (spec_line_at ?s' dir_line dir_count line_length spacing k))
                      [0..<length xs])"
    by (simp add: shift map_upt_Suc del: upt_Suc)
  have step: "for_loop (x # xs)
           (draw_lines_step dir_line dir_count line_length spacing)
           (start, emit ps self)
        = for_loop xs
           (draw_lines_step dir_line dir_count line_length spacing)
           (?s', emit (ps @ spec_strokes self (spec_line_at start dir_line dir_count line_length spacing 0)) self)"
    using Cons.prems by (simp add: draw_lines_step_def draw_multiple_lines_emit l0)
  show ?case
    unfolding step ih upd maps append_assoc ..
qed

lemma draw_lines_loop0:
  assumes "drawing self \<noteq> None" "dir_count < length start" "dir_line < length start"
  shows "for_loop xs
           (draw_lines_step dir_line dir_count line_length spacing)
           (start, self)
         = Inr (start[dir_count := start ! dir_count + real (length xs) * spacing],
                emit (concat (map (\<lambda>k. spec_strokes self
                        (spec_line_at start dir_line dir_count line_length spacing k))
                      [0..<length xs])) self)"
  using draw_lines_loop [OF assms, of xs line_length spacing "[]"] by simp

lemma length_range_py [simp]: "length (range_py n) = nat n"
  by (simp add: range_py_def)

lemma draw_lines_vertical:
  assumes "drawing self \<noteq> None" "length start = 2"
  shows "draw_lines self start ''vertical''
       = Inr (emit (concat (map (spec_strokes self) (spec_vertical_lines self start))) self)"
  using assms
  by (simp add: draw_lines_def draw_lines_loop0 spec_vertical_lines_def comp_def)

lemma draw_lines_horizontal:
  assumes "drawing self \<noteq> None" "length start = 2"
  shows "draw_lines self start ''horizontal''
       = Inr (emit (concat (map (spec_strokes self) (spec_horizontal_lines self start))) self)"
  using assms
  by (simp add: draw_lines_def draw_lines_loop0 spec_horizontal_lines_def comp_def)

lemma spec_vertical_lines_emit [simp]: "spec_vertical_lines (emit ps self) start = spec_vertical_lines self start"
  by (simp add: spec_vertical_lines_def)

lemma spec_horizontal_lines_emit [simp]: "spec_horizontal_lines (emit ps self) start = spec_horizontal_lines self start"
  by (simp add: spec_horizontal_lines_def)

lemma spec_strokes_emit_fun [simp]: "spec_strokes (emit ps self) = spec_strokes self"
  by (rule ext) simp

lemma spec_circles_emit [simp]: "spec_circles (emit ps self) pos = spec_circles self pos"
  by (simp add: spec_circles_def)

lemma spec_stars_emit [simp]: "spec_stars (emit ps self) start = spec_stars self start"
  by (simp add: spec_stars_def cong: if_cong)

lemma spec_origin_emit [simp]: "spec_origin (emit ps self) = spec_origin self"
  by (simp add: spec_origin_def)

lemma length_origin [simp]: "length (spec_origin self) = 2"
  by (simp add: spec_origin_def)

lemma draw_border:
  assumes "drawing self \<noteq> None"
  shows "(if border self then
            let borderwidth = width self - linewidth self;
                (borderpos, borderheight) =
                  (if half_board self then
                     ((0, - rounded_corners self),
                      height self - linewidth self + rounded_corners self)
                   else ((0, 0), height self - linewidth self))
            in ebind
                 (add (Rect borderpos (borderwidth, borderheight)
                         (cut_stroke (colors self)) (linewidth self)
                         (background (colors self))
                         (rounded_corners self) (rounded_corners self)) self)
                 (\<lambda>self2.
                    if half_board self2 then
                      add (Line [0, 0] [width self2, 0]
                             (cut_stroke (colors self2)) (linewidth self2)) self2
                    else Inr self2)
          else Inr self) = Inr (emit (spec_border self) self)"
  using assms by (simp add: spec_border_def add_emit Let_def)

lemma blank_fields [simp]:
  "half_board (blank self) = half_board self"
  "border (blank self) = border self"
  "drawing (blank self) \<noteq> None"
  by (simp_all add: blank_def)

lemma draw_emit:
  "draw self =
     Inr (emit (spec_border (blank self)
                @ concat (map (spec_strokes (blank self)) (spec_vertical_lines (blank self) (spec_origin (blank self))))
                @ concat (map (spec_strokes (blank self)) (spec_horizontal_lines (blank self) (spec_origin (blank self))))
                @ spec_stars (blank self) (spec_origin (blank self)))
            (blank self))"
proof -
  let ?b = "blank self"
  have d: "drawing ?b \<noteq> None" by simp
  have "draw self =
     ebind (Inr (emit (spec_border ?b) ?b))
       (\<lambda>self3.
            let start = (if half_board self3 then [margin self3, 0]
                         else [margin self3, margin self3])
            in ebind (draw_lines self3 start ''vertical'')
                 (\<lambda>self4. ebind (draw_lines self4 start ''horizontal'')
                    (\<lambda>self5. draw_starpoints self5 start)))"
    unfolding draw_def Let_def blank_def [symmetric] draw_border [OF d, unfolded Let_def] ..
  also have "\<dots> = ebind (draw_lines (emit (spec_border ?b) ?b) (spec_origin ?b) ''vertical'')
                 (\<lambda>self4. ebind (draw_lines self4 (spec_origin ?b) ''horizontal'')
                    (\<lambda>self5. draw_starpoints self5 (spec_origin ?b)))"
    by (simp add: spec_origin_def Let_def)
  also have "\<dots> = ebind (draw_lines (emit (spec_border ?b @ concat (map (spec_strokes ?b) (spec_vertical_lines ?b (spec_origin ?b)))) ?b) (spec_origin ?b) ''horizontal'')
                    (\<lambda>self5. draw_starpoints self5 (spec_origin ?b))"
    by (simp add: draw_lines_vertical)
  also have "\<dots> = draw_starpoints (emit (spec_border ?b @ concat (map (spec_strokes ?b) (spec_vertical_lines ?b (spec_origin ?b)))
                @ concat (map (spec_strokes ?b) (spec_horizontal_lines ?b (spec_origin ?b)))) ?b) (spec_origin ?b)"
    by (simp add: draw_lines_horizontal)
  also have "\<dots> = Inr (emit (spec_border ?b
                @ concat (map (spec_strokes ?b) (spec_vertical_lines ?b (spec_origin ?b)))
                @ concat (map (spec_strokes ?b) (spec_horizontal_lines ?b (spec_origin ?b)))
                @ spec_stars ?b (spec_origin ?b)) ?b)"
    by (simp add: draw_starpoints_emit)
  finally show ?thesis .
qed

section \<open>Facts about the constructor, the tables and fresh drawings\<close>

lemma prims_of_blank [simp]: "prims_of (blank self) = []"
  by (simp add: prims_of_def blank_def)

lemma spec_blank [simp]:
  "spec_border (blank self) = spec_border self"
  "spec_strokes (blank self) = spec_strokes self"
  "spec_vertical_lines (blank self) = spec_vertical_lines self"
  "spec_horizontal_lines (blank self) = spec_horizontal_lines self"
  "spec_origin (blank self) = spec_origin self"
  "spec_circles (blank self) = spec_circles self"
  "spec_stars (blank self) = spec_stars self"
  by (auto simp: fun_eq_iff blank_def spec_border_def spec_strokes_def spec_vertical_lines_def
        spec_horizontal_lines_def spec_origin_def spec_circles_def spec_stars_def
        cong: if_cong)

lemma draw_prims:
  obtains b' where "draw self = Inr b'"
    and "prims_of b' = spec_border self
           @ concat (map (spec_strokes self)
               (spec_vertical_lines self (spec_origin self)
                @ spec_horizontal_lines self (spec_origin self)))
           @ spec_stars self (spec_origin self)"
proof
  show "draw self = Inr (emit (spec_border (blank self)
                @ concat (map (spec_strokes (blank self)) (spec_vertical_lines (blank self) (spec_origin (blank self))))
                @ concat (map (spec_strokes (blank self)) (spec_horizontal_lines (blank self) (spec_origin (blank self))))
                @ spec_stars (blank self) (spec_origin (blank self)))
            (blank self))"
    by (rule draw_emit)
  show "prims_of (emit (spec_border (blank self)
                @ concat (map (spec_strokes (blank self)) (spec_vertical_lines (blank self) (spec_origin (blank self))))
                @ concat (map (spec_strokes (blank self)) (spec_horizontal_lines (blank self) (spec_origin (blank self))))
                @ spec_stars (blank self) (spec_origin (blank self)))
            (blank self)) = spec_border self
           @ concat (map (spec_strokes self)
               (spec_vertical_lines self (spec_origin self)
                @ spec_horizontal_lines self (spec_origin self)))
           @ spec_stars self (spec_origin self)"
    by (simp add: prims_of_emit)
qed

lemma length_spec_strokes [simp]: "length (spec_strokes self c) = nat (multiple_lines self)"
  by (simp add: spec_strokes_def split: prod.splits)

lemma length_spec_circles [simp]: "length (spec_circles self pos) = nat (multiple_lines self)"
  by (simp add: spec_circles_def)

lemma filter_spec_strokes [simp]:
  "filter is_Line (spec_strokes self c) = spec_strokes self c"
  "filter is_Circle (spec_strokes self c) = []"
  "filter is_Rect (spec_strokes self c) = []"
  by (simp_all add: spec_strokes_def filter_map comp_def Let_def split: prod.splits)

lemma filter_spec_circles [simp]:
  "filter is_Line (spec_circles self pos) = []"
  "filter is_Circle (spec_circles self pos) = spec_circles self pos"
  "filter is_Rect (spec_circles self pos) = []"
  by (simp_all add: spec_circles_def filter_map comp_def)

lemma filter_concat_id:
  "(\<And>x. x \<in> set xs \<Longrightarrow> filter P (f x) = f x) \<Longrightarrow> filter P (concat (map f xs)) = concat (map f xs)"
  by (induction xs) simp_all

lemma filter_concat_Nil:
  "(\<And>x. x \<in> set xs \<Longrightarrow> filter P (f x) = []) \<Longrightarrow> filter P (concat (map f xs)) = []"
  by (induction xs) simp_all

lemma filter_grid [simp]:
  "filter is_Line (concat (map (spec_strokes self) cs)) = concat (map (spec_strokes self) cs)"
  "filter is_Circle (concat (map (spec_strokes self) cs)) = []"
  "filter is_Rect (concat (map (spec_strokes self) cs)) = []"
  by (simp_all add: filter_concat_id filter_concat_Nil)

lemma filter_spec_stars [simp]:
  "filter is_Line (spec_stars self start) = []"
  "filter is_Circle (spec_stars self start) = spec_stars self start"
  "filter is_Rect (spec_stars self start) = []"
  unfolding spec_stars_def
  by (rule filter_concat_Nil filter_concat_id; simp add: Let_def split: prod.splits)+

lemma length_grid_strokes [simp]:
  "length (concat (map (spec_strokes self) cs)) = nat (multiple_lines self) * length cs"
  by (induction cs) simp_all

lemma init_full:
  "\<not> half_board opt \<Longrightarrow>
   \<exists>b. GoBoard_init opt = Inr b \<and> \<not> half_board b
     \<and> lines_horizontal b = lines_horizontal opt \<and> lines_vertical b = lines_vertical opt
     \<and> star_points b = star_points opt \<and> multiple_lines b = multiple_lines opt
     \<and> multiple_lines_spacing b = multiple_lines_spacing opt
     \<and> spacing_horizontal b = spacing_horizontal opt \<and> spacing_vertical b = spacing_vertical opt
     \<and> margin b = margin opt \<and> colors b = colors opt \<and> linewidth b = linewidth opt
     \<and> border b = border opt \<and> star_diameter b = star_diameter opt"
  by (simp add: GoBoard_init_def Let_def options.defs GoBoard.defs size_opts.defs)

lemma sizeOptions_cases:
  assumes "sizeOptions key = Some so"
  shows "lines_horizontal so \<in> {7, 9, 13, 19} \<and> lines_vertical so = lines_horizontal so"
  using assms by (auto simp: sizeOptions_def split: if_splits)

lemma spec_border_lines_full [simp]:
  "\<not> half_board self \<Longrightarrow> filter is_Line (spec_border self) = []"
  "filter is_Circle (spec_border self) = []"
  by (simp_all add: spec_border_def)

lemma init_half:
  "half_board opt \<Longrightarrow> odd (lines_vertical opt) \<Longrightarrow>
   \<exists>b. GoBoard_init opt = Inr b \<and> half_board b
     \<and> lines_horizontal b = lines_horizontal opt
     \<and> lines_vertical b = (lines_vertical opt + 1) div 2
     \<and> star_points b = star_points opt \<and> multiple_lines b = multiple_lines opt
     \<and> multiple_lines_spacing b = multiple_lines_spacing opt
     \<and> spacing_horizontal b = spacing_horizontal opt \<and> spacing_vertical b = spacing_vertical opt
     \<and> margin b = margin opt \<and> colors b = colors opt \<and> linewidth b = linewidth opt
     \<and> border b = border opt \<and> star_diameter b = star_diameter opt"
  by (simp add: GoBoard_init_def Let_def options.defs GoBoard.defs size_opts.defs
        odd_iff_mod_2_eq_one)

lemma grid_perpendicular:
  assumes "c \<in> set (spec_vertical_lines b (spec_origin b) @ spec_horizontal_lines b (spec_origin b))"
  shows "case c of (s, e, dc) \<Rightarrow> dc < length s \<and> dc < length e \<and> s ! dc = e ! dc"
  using assms
  by (auto simp: spec_vertical_lines_def spec_horizontal_lines_def spec_line_at_def
        spec_origin_def Let_def split: if_splits)

lemma main_options_13_half:
  "main_options ''13'' True False 10
     = Some ((DefaultOptions \<lparr>lines_horizontal = 13, lines_vertical = 13,
               star_points = [(3, 3), (9, 3), (6, 6), (3, 9), (9, 9)]\<rparr> True)
               \<lparr>border := True, rounded_corners := 10\<rparr>)"
  by (simp add: main_options_def sizeOptions_def)

lemma sizeOptions_7:
  "sizeOptions ''7'' = Some \<lparr>lines_horizontal = 7, lines_vertical = 7,
        star_points = [(2, 2), (4, 2), (2, 4), (4, 4)]\<rparr>"
  by (simp add: sizeOptions_def)

lemma main_options_7_full:
  "main_options ''7'' False False 10
     = Some ((DefaultOptions \<lparr>lines_horizontal = 7, lines_vertical = 7,
               star_points = [(2, 2), (4, 2), (2, 4), (4, 4)]\<rparr> False)
               \<lparr>border := True, rounded_corners := 10\<rparr>)"
  by (simp add: main_options_def sizeOptions_def)

lemma init_dims:
  "GoBoard_init opt = Inr b \<Longrightarrow>
     width b = real_of_int (lines_horizontal opt - 1) * spacing_horizontal opt
                 + linewidth opt + margin opt * 2
   \<and> height b = (if half_board opt
        then real_of_int ((lines_vertical opt + 1) div 2 - 1) * spacing_vertical opt
               + linewidth opt + margin opt
        else real_of_int (lines_vertical opt - 1) * spacing_vertical opt
               + linewidth opt + margin opt * 2)
   \<and> rounded_corners b = rounded_corners opt"
  by (auto simp: GoBoard_init_def Let_def options.defs GoBoard.defs size_opts.defs
        split: if_splits)

lemma blank_drawing:
  "\<exists>d. drawing (blank self) = Some d \<and> elements d = []"
  by (simp add: blank_def)

lemma blank_options [simp]:
  "multiple_lines (blank self) = multiple_lines self"
  "multiple_lines_spacing (blank self) = multiple_lines_spacing self"
  "colors (blank self) = colors self"
  "linewidth (blank self) = linewidth self"
  "star_diameter (blank self) = star_diameter self"
  "star_points (blank self) = star_points self"
  "lines_vertical (blank self) = lines_vertical self"
  "spacing_horizontal (blank self) = spacing_horizontal self"
  "spacing_vertical (blank self) = spacing_vertical self"
  by (simp_all add: blank_def)

lemma range_py_2: "range_py 2 = [0, 1]"
  by (simp add: range_py_def upt_conv_Cons)

lemma main_options_9_full:
  "main_options ''9'' False False 10
     = Some ((DefaultOptions \<lparr>lines_horizontal = 9, lines_vertical = 9,
               star_points = [(2, 2), (6, 2), (4, 4), (2, 6), (6, 6)]\<rparr> False)
               \<lparr>border := True, rounded_corners := 10\<rparr>)"
  by (simp add: main_options_def sizeOptions_def)

text \<open>
  On two sequences and an index that is not negative the method on argument values
  is \<open>draw_multiple_lines\<close>.
\<close>

lemma py_index_nat: "py_index (int k) n = (if k < n then Some k else None)"
  by (simp add: py_index_def)

lemma draw_multiple_lines_py_eq:
  "draw_multiple_lines_py self (PySeq start) (PySeq endp) (PyInt (int dir_count))
     = draw_multiple_lines self start endp dir_count"
proof -
  have "(\<lambda>l self'.
           case py_index (int dir_count) (length start) of
             None \<Rightarrow> Inl IndexError
           | Some i \<Rightarrow>
               (case py_index (int dir_count) (length endp) of
                  None \<Rightarrow> Inl IndexError
                | Some j \<Rightarrow>
                    add (Line (start[i := start ! i
                                 + (real_of_int l - real_of_int (multiple_lines self') / 2)
                                     * multiple_lines_spacing self'])
                              (endp[j := endp ! j
                                 + (real_of_int l - real_of_int (multiple_lines self') / 2)
                                     * multiple_lines_spacing self'])
                              (mark_stroke (colors self')) (linewidth self'))
                      self'))
      = (\<lambda>l self'.
           if dir_count < length start \<and> dir_count < length endp then
             add (Line (start[dir_count := start ! dir_count
                          + (real_of_int l - real_of_int (multiple_lines self') / 2)
                              * multiple_lines_spacing self'])
                       (endp[dir_count := endp ! dir_count
                          + (real_of_int l - real_of_int (multiple_lines self') / 2)
                              * multiple_lines_spacing self'])
                       (mark_stroke (colors self')) (linewidth self')) self'
           else Inl IndexError)"
    by (simp add: fun_eq_iff py_index_nat)
  then show ?thesis
    by (simp add: draw_multiple_lines_py_def draw_multiple_lines_def Let_def)
qed

section \<open>The claims\<close>

subsection \<open>Grid lines\<close>

text \<open>
  Claim C1. For each size of the table (7, 9, 13, 19) and \<open>multiple_lines \<ge> 1\<close>, drawing a
  full board succeeds and the line primitives of the drawing are exactly the strokes of
  the centre lines of the grid, in order: there are \<open>lines_horizontal + lines_vertical\<close>
  centre lines, each gives \<open>multiple_lines\<close> strokes, so the drawing holds
  \<open>multiple_lines * (lines_horizontal + lines_vertical)\<close> line primitives and no cut
  line.
\<close>

theorem C1_full_board_line_count:
  assumes "sizeOptions key = Some so"
    and "lines_horizontal opt = lines_horizontal so"
    and "lines_vertical opt = lines_vertical so"
    and "\<not> half_board opt"
    and "1 \<le> multiple_lines opt"
  shows "\<exists>b b'. GoBoard_init opt = Inr b \<and> draw b = Inr b'
     \<and> filter is_Line (prims_of b')
         = concat (map (spec_strokes b)
              (spec_vertical_lines b (spec_origin b) @ spec_horizontal_lines b (spec_origin b)))
     \<and> int (length (spec_vertical_lines b (spec_origin b)
                     @ spec_horizontal_lines b (spec_origin b)))
         = lines_horizontal opt + lines_vertical opt
     \<and> (\<forall>c \<in> set (spec_vertical_lines b (spec_origin b)
                     @ spec_horizontal_lines b (spec_origin b)).
           int (length (spec_strokes b c)) = multiple_lines opt)
     \<and> int (length (filter is_Line (prims_of b')))
         = multiple_lines opt * (lines_horizontal opt + lines_vertical opt)"
proof -
  from init_full [OF assms(4)] obtain b where b: "GoBoard_init opt = Inr b" "\<not> half_board b"
    "lines_horizontal b = lines_horizontal opt" "lines_vertical b = lines_vertical opt"
    "multiple_lines b = multiple_lines opt"
    by blast
  obtain b' where d: "draw b = Inr b'"
    and p: "prims_of b' = spec_border b
           @ concat (map (spec_strokes b)
               (spec_vertical_lines b (spec_origin b)
                @ spec_horizontal_lines b (spec_origin b)))
           @ spec_stars b (spec_origin b)"
    by (rule draw_prims)
  let ?grid = "spec_vertical_lines b (spec_origin b) @ spec_horizontal_lines b (spec_origin b)"
  from sizeOptions_cases [OF assms(1)] assms(2,3)
  have nn: "0 \<le> lines_horizontal opt" "0 \<le> lines_vertical opt"
    by auto
  have f: "filter is_Line (prims_of b') = concat (map (spec_strokes b) ?grid)"
    unfolding p using b(2) by (simp del: map_append)
  have n: "int (length ?grid) = lines_horizontal opt + lines_vertical opt"
    using nn b(3,4) by (simp add: spec_vertical_lines_def spec_horizontal_lines_def)
  have m: "\<forall>c \<in> set ?grid. int (length (spec_strokes b c)) = multiple_lines opt"
    using assms(5) b(5) by simp
  have "int (length (filter is_Line (prims_of b'))) = int (nat (multiple_lines opt) * length ?grid)"
    unfolding f using b(5) by (simp del: map_append)
  also have "\<dots> = multiple_lines opt * (lines_horizontal opt + lines_vertical opt)"
    using assms(5) n by simp
  finally show ?thesis
    using b(1) d f n m by blast
qed

theorem C1_full_board_line_count_witness:
  "\<exists>opt b b'. main_options ''7'' False False 10 = Some opt
     \<and> \<not> half_board opt \<and> 1 \<le> multiple_lines opt
     \<and> GoBoard_init opt = Inr b \<and> draw b = Inr b'
     \<and> int (length (filter is_Line (prims_of b'))) = 2 * (7 + 7)"
proof -
  let ?so = "\<lparr>lines_horizontal = 7, lines_vertical = 7,
        star_points = [(2, 2), (4, 2), (2, 4), (4, 4)]\<rparr>"
  let ?opt = "(DefaultOptions ?so False)\<lparr>border := True, rounded_corners := 10\<rparr>"
  have h: "lines_horizontal ?opt = lines_horizontal ?so" "lines_vertical ?opt = lines_vertical ?so"
    "\<not> half_board ?opt" "1 \<le> multiple_lines ?opt"
    by (simp_all add: DefaultOptions_def)
  from C1_full_board_line_count [OF sizeOptions_7 h] obtain b b' where
    "GoBoard_init ?opt = Inr b" "draw b = Inr b'"
    "int (length (filter is_Line (prims_of b')))
       = multiple_lines ?opt * (lines_horizontal ?opt + lines_vertical ?opt)"
    by blast
  moreover have "multiple_lines ?opt * (lines_horizontal ?opt + lines_vertical ?opt) = 2 * (7 + 7)"
    by (simp add: DefaultOptions_def)
  ultimately show ?thesis
    using main_options_7_full h(3,4) by metis
qed

subsection \<open>Dimensions and the constructor's error\<close>

text \<open>
  Claim C2. Whenever the constructor returns an object, its width is
  \<open>(lines_horizontal - 1) * spacing_horizontal + linewidth + 2 * margin\<close>; for size 13,
  full board and the default spacing 22, margin 15 and line width 0.15 it is 294.15.
  (The arithmetic is that of the reals.)
\<close>

theorem C2_width:
  "(\<forall>opt b. GoBoard_init opt = Inr b \<longrightarrow>
      width b = real_of_int (lines_horizontal opt - 1) * spacing_horizontal opt
                  + linewidth opt + 2 * margin opt)
   \<and> (\<exists>opt b. main_options ''13'' False False 10 = Some opt
          \<and> spacing_horizontal opt = 22 \<and> margin opt = 15 \<and> linewidth opt = 15 / 100
          \<and> GoBoard_init opt = Inr b \<and> width b = 29415 / 100)"
proof (intro conjI allI impI)
  fix opt b
  assume "GoBoard_init opt = Inr b"
  then show "width b = real_of_int (lines_horizontal opt - 1) * spacing_horizontal opt
                  + linewidth opt + 2 * margin opt"
    by (auto simp: GoBoard_init_def Let_def options.defs GoBoard.defs split: if_splits)
next
  show "\<exists>opt b. main_options ''13'' False False 10 = Some opt
          \<and> spacing_horizontal opt = 22 \<and> margin opt = 15 \<and> linewidth opt = 15 / 100
          \<and> GoBoard_init opt = Inr b \<and> width b = 29415 / 100"
    by (simp add: main_options_def sizeOptions_def DefaultOptions_def GoBoard_init_def
          Let_def options.defs GoBoard.defs)
qed

theorem C2_width_witness:
  "\<exists>b. GoBoard_init (DefaultOptions \<lparr>lines_horizontal = 19, lines_vertical = 19, star_points = []\<rparr> True) = Inr b
      \<and> width b = 18 * 22 + 15 / 100 + 2 * 15"
proof -
  let ?opt = "DefaultOptions \<lparr>lines_horizontal = 19, lines_vertical = 19, star_points = []\<rparr> True"
  obtain b where b: "GoBoard_init ?opt = Inr b"
    by (simp add: DefaultOptions_def GoBoard_init_def Let_def)
  from C2_width b have "width b = real_of_int (lines_horizontal ?opt - 1) * spacing_horizontal ?opt
                  + linewidth ?opt + 2 * margin ?opt"
    by blast
  then have "width b = 18 * 22 + 15 / 100 + 2 * 15"
    by (simp add: DefaultOptions_def)
  with b show ?thesis by blast
qed

text \<open>
  Claim C3. With \<open>half_board\<close> set and an odd number of vertical lines the constructor
  reduces the count to \<open>(lines_vertical + 1) div 2\<close> and the height is
  \<open>(lines_vertical' - 1) * spacing_vertical + linewidth + margin\<close>, with one margin; for
  a full board the count is kept and the height has \<open>2 * margin\<close>.
\<close>

theorem C3_half_board_height:
  "(half_board opt \<and> odd (lines_vertical opt) \<longrightarrow>
      (\<exists>b. GoBoard_init opt = Inr b
         \<and> lines_vertical b = (lines_vertical opt + 1) div 2
         \<and> height b = real_of_int (lines_vertical b - 1) * spacing_vertical opt
                        + linewidth opt + margin opt))
   \<and> (\<not> half_board opt \<longrightarrow>
      (\<exists>b. GoBoard_init opt = Inr b
         \<and> lines_vertical b = lines_vertical opt
         \<and> height b = real_of_int (lines_vertical opt - 1) * spacing_vertical opt
                        + linewidth opt + 2 * margin opt))"
  by (auto simp: GoBoard_init_def Let_def options.defs GoBoard.defs size_opts.defs)

theorem C3_half_board_height_witness:
  "(\<exists>opt b. main_options ''13'' True False 10 = Some opt \<and> GoBoard_init opt = Inr b
      \<and> lines_vertical opt = 13 \<and> lines_vertical b = 7
      \<and> height b = 6 * (237 / 10) + 15 / 100 + 15)
   \<and> (\<exists>opt b. main_options ''13'' False False 10 = Some opt \<and> GoBoard_init opt = Inr b
      \<and> lines_vertical b = 13
      \<and> height b = 12 * (237 / 10) + 15 / 100 + 2 * 15)"
proof -
  let ?so = "\<lparr>lines_horizontal = 13, lines_vertical = 13,
        star_points = [(3, 3), (9, 3), (6, 6), (3, 9), (9, 9)]\<rparr>"
  let ?h = "(DefaultOptions ?so True)\<lparr>border := True, rounded_corners := 10\<rparr>"
  let ?f = "(DefaultOptions ?so False)\<lparr>border := True, rounded_corners := 10\<rparr>"
  have mh: "main_options ''13'' True False 10 = Some ?h"
    and mf: "main_options ''13'' False False 10 = Some ?f"
    by (simp_all add: main_options_def sizeOptions_def)
  have hyp: "half_board ?h \<and> odd (lines_vertical ?h)" "\<not> half_board ?f"
    by (simp_all add: DefaultOptions_def)
  from C3_half_board_height [of ?h] hyp(1) obtain b where
    "GoBoard_init ?h = Inr b" "lines_vertical b = (lines_vertical ?h + 1) div 2"
    "height b = real_of_int (lines_vertical b - 1) * spacing_vertical ?h + linewidth ?h + margin ?h"
    by blast
  then have 1: "GoBoard_init ?h = Inr b \<and> lines_vertical ?h = 13 \<and> lines_vertical b = 7
      \<and> height b = 6 * (237 / 10) + 15 / 100 + 15"
    by (simp add: DefaultOptions_def)
  from C3_half_board_height [of ?f] hyp(2) obtain b' where
    "GoBoard_init ?f = Inr b'" "lines_vertical b' = lines_vertical ?f"
    "height b' = real_of_int (lines_vertical ?f - 1) * spacing_vertical ?f + linewidth ?f + 2 * margin ?f"
    by blast
  then have 2: "GoBoard_init ?f = Inr b' \<and> lines_vertical b' = 13
      \<and> height b' = 12 * (237 / 10) + 15 / 100 + 2 * 15"
    by (simp add: DefaultOptions_def)
  from mh mf 1 2 show ?thesis by blast
qed

text \<open>
  Claim C4. With \<open>half_board\<close> set and an even number of vertical lines the constructor
  raises, so a run ends in that error whatever it was going to draw: no object and no
  drawing exist. (The exception is Python's \<^verbatim>\<open>Exception\<close> with the message of
  line 80.)
\<close>

theorem C4_even_half_board_fails:
  assumes "half_board opt" "even (lines_vertical opt)"
  shows "GoBoard_init opt = Inl (Exception
             ''The half board option only works with an odd number of vertical lines.'')
       \<and> run opt test_flag = Inl (Exception
             ''The half board option only works with an odd number of vertical lines.'')
       \<and> (\<forall>b. run opt test_flag \<noteq> Inr b)"
  using assms by (simp add: GoBoard_init_def run_def Let_def)

theorem C4_even_half_board_fails_witness:
  "half_board (DefaultOptions \<lparr>lines_horizontal = 8, lines_vertical = 8, star_points = []\<rparr> True)
   \<and> even (lines_vertical (DefaultOptions \<lparr>lines_horizontal = 8, lines_vertical = 8, star_points = []\<rparr> True))
   \<and> run (DefaultOptions \<lparr>lines_horizontal = 8, lines_vertical = 8, star_points = []\<rparr> True) False
       = Inl (Exception ''The half board option only works with an odd number of vertical lines.'')"
proof -
  let ?opt = "DefaultOptions \<lparr>lines_horizontal = 8, lines_vertical = 8, star_points = []\<rparr> True"
  have h: "half_board ?opt" "even (lines_vertical ?opt)"
    by (simp_all add: DefaultOptions_def)
  from C4_even_half_board_fails [OF h, of False] h show ?thesis by blast
qed

subsection \<open>Strokes, star points, calibration sheet, border\<close>

text \<open>
  Claim C5. \<open>draw_multiple_lines\<close> adds, for \<open>l = 0, \<dots>, multiple_lines - 1\<close>, the centre
  line moved by \<open>(l - multiple_lines / 2) * multiple_lines_spacing\<close> along the axis
  \<open>dir_count\<close>; with two strokes 0.25 apart these are the centre line moved by -0.25 and
  the centre line itself. In a drawn board every line primitive besides the border's
  cut line is such a stroke of a centre line of the grid, and each centre line has the
  same coordinate at both ends along its \<open>dir_count\<close>: it runs along the other axis,
  so the strokes are spread perpendicular to it.
\<close>

theorem C5_stroke_offsets:
  "(drawing self = Some d \<and> dir_count < length start \<and> dir_count < length endp \<longrightarrow>
      (\<exists>self'. draw_multiple_lines self start endp dir_count = Inr self'
         \<and> prims_of self' = elements d
             @ map (\<lambda>l. Line
                    (start[dir_count := start ! dir_count
                       + (real_of_int l - real_of_int (multiple_lines self) / 2)
                           * multiple_lines_spacing self])
                    (endp[dir_count := endp ! dir_count
                       + (real_of_int l - real_of_int (multiple_lines self) / 2)
                           * multiple_lines_spacing self])
                    (mark_stroke (colors self)) (linewidth self))
                 (range_py (multiple_lines self))
         \<and> (multiple_lines self = 2 \<and> multiple_lines_spacing self = 25 / 100 \<longrightarrow>
              prims_of self' = elements d
                @ [Line (start[dir_count := start ! dir_count - 25 / 100])
                        (endp[dir_count := endp ! dir_count - 25 / 100])
                        (mark_stroke (colors self)) (linewidth self),
                   Line start endp (mark_stroke (colors self)) (linewidth self)])))
   \<and> (\<exists>b'. draw b = Inr b'
         \<and> filter is_Line (prims_of b') = filter is_Line (spec_border b)
             @ concat (map (\<lambda>(s, e, dc).
                  map (\<lambda>l. Line
                         (s[dc := s ! dc
                            + (real_of_int l - real_of_int (multiple_lines b) / 2)
                                * multiple_lines_spacing b])
                         (e[dc := e ! dc
                            + (real_of_int l - real_of_int (multiple_lines b) / 2)
                                * multiple_lines_spacing b])
                         (mark_stroke (colors b)) (linewidth b))
                      (range_py (multiple_lines b)))
                (spec_vertical_lines b (spec_origin b) @ spec_horizontal_lines b (spec_origin b)))
         \<and> (\<forall>(s, e, dc) \<in> set (spec_vertical_lines b (spec_origin b)
                                  @ spec_horizontal_lines b (spec_origin b)).
               dc < length s \<and> dc < length e \<and> s ! dc = e ! dc))"
proof (intro conjI impI)
  assume a: "drawing self = Some d \<and> dir_count < length start \<and> dir_count < length endp"
  then have nn: "drawing self \<noteq> None" by simp
  have r: "range_py 2 = [0, 1]"
    by (simp add: range_py_def upt_conv_Cons)
  have p: "prims_of (emit (spec_strokes self (start, endp, dir_count)) self)
         = elements d @ spec_strokes self (start, endp, dir_count)"
    using a by (simp add: prims_of_emit [OF nn] prims_of_def)
  have two: "multiple_lines self = 2 \<and> multiple_lines_spacing self = 25 / 100 \<longrightarrow>
      spec_strokes self (start, endp, dir_count)
        = [Line (start[dir_count := start ! dir_count - 25 / 100])
                (endp[dir_count := endp ! dir_count - 25 / 100])
                (mark_stroke (colors self)) (linewidth self),
           Line start endp (mark_stroke (colors self)) (linewidth self)]"
  proof (intro impI, elim conjE)
    assume m: "multiple_lines self = 2" and sp: "multiple_lines_spacing self = 25 / 100"
    show "spec_strokes self (start, endp, dir_count)
        = [Line (start[dir_count := start ! dir_count - 25 / 100])
                (endp[dir_count := endp ! dir_count - 25 / 100])
                (mark_stroke (colors self)) (linewidth self),
           Line start endp (mark_stroke (colors self)) (linewidth self)]"
      by (simp add: spec_strokes_def m sp r)
  qed
  have e: "spec_strokes self (start, endp, dir_count)
         = map (\<lambda>l. Line
                    (start[dir_count := start ! dir_count
                       + (real_of_int l - real_of_int (multiple_lines self) / 2)
                           * multiple_lines_spacing self])
                    (endp[dir_count := endp ! dir_count
                       + (real_of_int l - real_of_int (multiple_lines self) / 2)
                           * multiple_lines_spacing self])
                    (mark_stroke (colors self)) (linewidth self))
                 (range_py (multiple_lines self))"
    by (simp add: spec_strokes_def Let_def)
  have dm: "draw_multiple_lines self start endp dir_count
          = Inr (emit (spec_strokes self (start, endp, dir_count)) self)"
    using a nn by (intro draw_multiple_lines_emit) simp_all
  have three: "multiple_lines self = 2 \<and> multiple_lines_spacing self = 25 / 100 \<longrightarrow>
      prims_of (emit (spec_strokes self (start, endp, dir_count)) self) = elements d
        @ [Line (start[dir_count := start ! dir_count - 25 / 100])
                (endp[dir_count := endp ! dir_count - 25 / 100])
                (mark_stroke (colors self)) (linewidth self),
           Line start endp (mark_stroke (colors self)) (linewidth self)]"
  proof
    assume c: "multiple_lines self = 2 \<and> multiple_lines_spacing self = 25 / 100"
    from two c have "spec_strokes self (start, endp, dir_count)
        = [Line (start[dir_count := start ! dir_count - 25 / 100])
                (endp[dir_count := endp ! dir_count - 25 / 100])
                (mark_stroke (colors self)) (linewidth self),
           Line start endp (mark_stroke (colors self)) (linewidth self)]"
      by (rule mp)
    with p show "prims_of (emit (spec_strokes self (start, endp, dir_count)) self) = elements d
        @ [Line (start[dir_count := start ! dir_count - 25 / 100])
                (endp[dir_count := endp ! dir_count - 25 / 100])
                (mark_stroke (colors self)) (linewidth self),
           Line start endp (mark_stroke (colors self)) (linewidth self)]"
      by (simp only:)
  qed
  from dm [unfolded e] p [unfolded e] three [unfolded e]
  show "\<exists>self'. draw_multiple_lines self start endp dir_count = Inr self'
         \<and> prims_of self' = elements d
             @ map (\<lambda>l. Line
                    (start[dir_count := start ! dir_count
                       + (real_of_int l - real_of_int (multiple_lines self) / 2)
                           * multiple_lines_spacing self])
                    (endp[dir_count := endp ! dir_count
                       + (real_of_int l - real_of_int (multiple_lines self) / 2)
                           * multiple_lines_spacing self])
                    (mark_stroke (colors self)) (linewidth self))
                 (range_py (multiple_lines self))
         \<and> (multiple_lines self = 2 \<and> multiple_lines_spacing self = 25 / 100 \<longrightarrow>
              prims_of self' = elements d
                @ [Line (start[dir_count := start ! dir_count - 25 / 100])
                        (endp[dir_count := endp ! dir_count - 25 / 100])
                        (mark_stroke (colors self)) (linewidth self),
                   Line start endp (mark_stroke (colors self)) (linewidth self)])"
    by blast
next
  obtain b' where d: "draw b = Inr b'"
    and p: "prims_of b' = spec_border b
           @ concat (map (spec_strokes b)
               (spec_vertical_lines b (spec_origin b)
                @ spec_horizontal_lines b (spec_origin b)))
           @ spec_stars b (spec_origin b)"
    by (rule draw_prims)
  have s: "spec_strokes b = (\<lambda>(s, e, dc).
                  map (\<lambda>l. Line
                         (s[dc := s ! dc
                            + (real_of_int l - real_of_int (multiple_lines b) / 2)
                                * multiple_lines_spacing b])
                         (e[dc := e ! dc
                            + (real_of_int l - real_of_int (multiple_lines b) / 2)
                                * multiple_lines_spacing b])
                         (mark_stroke (colors b)) (linewidth b))
                      (range_py (multiple_lines b)))"
    by (simp add: fun_eq_iff spec_strokes_def Let_def)
  have f: "filter is_Line (prims_of b') = filter is_Line (spec_border b)
             @ concat (map (spec_strokes b)
                (spec_vertical_lines b (spec_origin b) @ spec_horizontal_lines b (spec_origin b)))"
    unfolding p by (simp del: map_append)
  have g: "\<forall>(s, e, dc) \<in> set (spec_vertical_lines b (spec_origin b)
                                  @ spec_horizontal_lines b (spec_origin b)).
               dc < length s \<and> dc < length e \<and> s ! dc = e ! dc"
    using grid_perpendicular [of _ b] by blast
  from d f [unfolded s] g
  show "\<exists>b'. draw b = Inr b'
         \<and> filter is_Line (prims_of b') = filter is_Line (spec_border b)
             @ concat (map (\<lambda>(s, e, dc).
                  map (\<lambda>l. Line
                         (s[dc := s ! dc
                            + (real_of_int l - real_of_int (multiple_lines b) / 2)
                                * multiple_lines_spacing b])
                         (e[dc := e ! dc
                            + (real_of_int l - real_of_int (multiple_lines b) / 2)
                                * multiple_lines_spacing b])
                         (mark_stroke (colors b)) (linewidth b))
                      (range_py (multiple_lines b)))
                (spec_vertical_lines b (spec_origin b) @ spec_horizontal_lines b (spec_origin b)))
         \<and> (\<forall>(s, e, dc) \<in> set (spec_vertical_lines b (spec_origin b)
                                  @ spec_horizontal_lines b (spec_origin b)).
               dc < length s \<and> dc < length e \<and> s ! dc = e ! dc)"
    by blast
qed

theorem C5_stroke_offsets_witness:
  "\<exists>opt b self'. main_options ''7'' False False 10 = Some opt \<and> GoBoard_init opt = Inr b
     \<and> draw_multiple_lines (blank b) [15, 15] [147, 15] 1 = Inr self'
     \<and> prims_of self'
         = [Line [15, 15 - 25 / 100] [147, 15 - 25 / 100] ''red'' (15 / 100),
            Line [15, 15] [147, 15] ''red'' (15 / 100)]
     \<and> ([15, 15], [147, 15], 1)
          \<in> set (spec_vertical_lines b (spec_origin b) @ spec_horizontal_lines b (spec_origin b))"
proof -
  let ?so = "\<lparr>lines_horizontal = 7, lines_vertical = 7,
        star_points = [(2, 2), (4, 2), (2, 4), (4, 4)]\<rparr>"
  let ?opt = "(DefaultOptions ?so False)\<lparr>border := True, rounded_corners := 10\<rparr>"
  have "\<not> half_board ?opt" by (simp add: DefaultOptions_def)
  from init_full [OF this] obtain b where b: "GoBoard_init ?opt = Inr b" "\<not> half_board b"
    "multiple_lines b = 2" "multiple_lines_spacing b = 25 / 100"
    "colors b = \<lparr>cut_stroke = ''black'', mark_stroke = ''red'', background = ''white''\<rparr>"
    "linewidth b = 15 / 100" "lines_vertical b = 7" "lines_horizontal b = 7"
    "margin b = 15" "spacing_horizontal b = 22" "spacing_vertical b = 237 / 10"
    by (auto simp: DefaultOptions_def)
  obtain d where d: "drawing (blank b) = Some d" "elements d = []"
    using blank_drawing by blast
  have hyp: "drawing (blank b) = Some d \<and> (1::nat) < length [15, 15 :: real]
               \<and> (1::nat) < length [147, 15 :: real]"
    using d by simp
  have two: "multiple_lines (blank b) = 2 \<and> multiple_lines_spacing (blank b) = 25 / 100"
    using b by simp
  from C5_stroke_offsets [of "blank b" d 1 "[15, 15]" "[147, 15]" b] hyp two
  obtain self' where s: "draw_multiple_lines (blank b) [15, 15] [147, 15] 1 = Inr self'"
    "prims_of self' = elements d
                @ [Line ([15, 15][1 := [15, 15] ! 1 - 25 / 100])
                        ([147, 15][1 := [147, 15] ! 1 - 25 / 100])
                        (mark_stroke (colors (blank b))) (linewidth (blank b)),
                   Line [15, 15] [147, 15] (mark_stroke (colors (blank b))) (linewidth (blank b))]"
    by blast
  have p: "prims_of self'
         = [Line [15, 15 - 25 / 100] [147, 15 - 25 / 100] ''red'' (15 / 100),
            Line [15, 15] [147, 15] ''red'' (15 / 100)]"
    unfolding s(2) using d(2) b by simp
  have "spec_line_at (spec_origin b) 0 1
          (spacing_horizontal b * real_of_int (lines_horizontal b - 1)) (spacing_vertical b) 0
        \<in> set (spec_vertical_lines b (spec_origin b))"
    unfolding spec_vertical_lines_def set_map using b(7) by (intro imageI) simp
  then have m: "([15, 15], [147, 15], 1)
          \<in> set (spec_vertical_lines b (spec_origin b) @ spec_horizontal_lines b (spec_origin b))"
    using b by (simp add: spec_line_at_def spec_origin_def)
  from main_options_7_full b(1) s(1) p m show ?thesis
    by blast
qed

text \<open>
  Claim C6. \<open>draw_starpoints\<close> walks the configured star points in order. On a full board
  the point \<open>(gx, gy)\<close> gets its circles at
  \<open>(start\<^sub>x + gx * spacing_horizontal - multiple_lines_spacing / 2,
    start\<^sub>y + gy * spacing_vertical - multiple_lines_spacing / 2)\<close>;
  on a half board \<open>gy\<close> is first reduced by \<open>lines_vertical - 1\<close> (the count after
  halving), and a point whose reduced \<open>gy\<close> is negative adds nothing and raises nothing.
  The test \<open>0 \<le> gy\<close> also runs on a full board, where no point of the size table fails it.
  For size 13 as a half board the reduction is 6: (3,3) and (9,3) are dropped, and
  (6,6), (3,9), (9,9) are drawn at rows 0, 3, 3.
\<close>

theorem C6_star_point_centers:
  "(drawing self = Some d \<and> length start = 2 \<longrightarrow>
      (\<exists>self'. draw_starpoints self start = Inr self'
         \<and> prims_of self' = elements d
             @ concat (map (\<lambda>(gx, gy).
                  if half_board self then
                    if 0 \<le> gy - (lines_vertical self - 1) then
                      spec_circles self
                        (start ! 0 + real_of_int gx * spacing_horizontal self
                           - multiple_lines_spacing self / 2,
                         start ! 1
                           + real_of_int (gy - (lines_vertical self - 1)) * spacing_vertical self
                           - multiple_lines_spacing self / 2)
                    else []
                  else
                    if 0 \<le> gy then
                      spec_circles self
                        (start ! 0 + real_of_int gx * spacing_horizontal self
                           - multiple_lines_spacing self / 2,
                         start ! 1 + real_of_int gy * spacing_vertical self
                           - multiple_lines_spacing self / 2)
                    else [])
                (star_points self))))
   \<and> (\<exists>opt b b'. main_options ''13'' True False 10 = Some opt
         \<and> GoBoard_init opt = Inr b \<and> lines_vertical b - 1 = 6
         \<and> star_points b = [(3, 3), (9, 3), (6, 6), (3, 9), (9, 9)]
         \<and> draw b = Inr b'
         \<and> filter is_Circle (prims_of b')
             = spec_circles b (15 + 6 * 22 - (25 / 100) / 2, 0 + 0 * (237 / 10) - (25 / 100) / 2)
               @ spec_circles b (15 + 3 * 22 - (25 / 100) / 2, 0 + 3 * (237 / 10) - (25 / 100) / 2)
               @ spec_circles b (15 + 9 * 22 - (25 / 100) / 2, 0 + 3 * (237 / 10) - (25 / 100) / 2))"
proof (intro conjI impI)
  assume a: "drawing self = Some d \<and> length start = 2"
  then have nn: "drawing self \<noteq> None" and len: "2 \<le> length start" by simp_all
  have p: "prims_of (emit (spec_stars self start) self) = elements d @ spec_stars self start"
    using a by (simp add: prims_of_emit [OF nn] prims_of_def)
  have e: "spec_stars self start = concat (map (\<lambda>(gx, gy).
                  if half_board self then
                    if 0 \<le> gy - (lines_vertical self - 1) then
                      spec_circles self
                        (start ! 0 + real_of_int gx * spacing_horizontal self
                           - multiple_lines_spacing self / 2,
                         start ! 1
                           + real_of_int (gy - (lines_vertical self - 1)) * spacing_vertical self
                           - multiple_lines_spacing self / 2)
                    else []
                  else
                    if 0 \<le> gy then
                      spec_circles self
                        (start ! 0 + real_of_int gx * spacing_horizontal self
                           - multiple_lines_spacing self / 2,
                         start ! 1 + real_of_int gy * spacing_vertical self
                           - multiple_lines_spacing self / 2)
                    else [])
                (star_points self))"
    unfolding spec_stars_def
    by (rule arg_cong [where f = concat], rule map_cong) (auto simp: Let_def)
  from draw_starpoints_emit [OF nn len] p [unfolded e]
  show "\<exists>self'. draw_starpoints self start = Inr self'
         \<and> prims_of self' = elements d
             @ concat (map (\<lambda>(gx, gy).
                  if half_board self then
                    if 0 \<le> gy - (lines_vertical self - 1) then
                      spec_circles self
                        (start ! 0 + real_of_int gx * spacing_horizontal self
                           - multiple_lines_spacing self / 2,
                         start ! 1
                           + real_of_int (gy - (lines_vertical self - 1)) * spacing_vertical self
                           - multiple_lines_spacing self / 2)
                    else []
                  else
                    if 0 \<le> gy then
                      spec_circles self
                        (start ! 0 + real_of_int gx * spacing_horizontal self
                           - multiple_lines_spacing self / 2,
                         start ! 1 + real_of_int gy * spacing_vertical self
                           - multiple_lines_spacing self / 2)
                    else [])
                (star_points self))"
    unfolding e by blast
next
  let ?opt = "(DefaultOptions \<lparr>lines_horizontal = 13, lines_vertical = 13,
               star_points = [(3, 3), (9, 3), (6, 6), (3, 9), (9, 9)]\<rparr> True)
               \<lparr>border := True, rounded_corners := 10\<rparr>"
  have "half_board ?opt" "odd (lines_vertical ?opt)"
    by (simp_all add: DefaultOptions_def)
  from init_half [OF this] obtain b where b: "GoBoard_init ?opt = Inr b" "half_board b"
    "lines_vertical b = 7" "star_points b = [(3, 3), (9, 3), (6, 6), (3, 9), (9, 9)]"
    "multiple_lines_spacing b = 25 / 100" "spacing_horizontal b = 22"
    "spacing_vertical b = 237 / 10" "margin b = 15"
    by (auto simp: DefaultOptions_def)
  obtain b' where d: "draw b = Inr b'"
    and p: "prims_of b' = spec_border b
           @ concat (map (spec_strokes b)
               (spec_vertical_lines b (spec_origin b)
                @ spec_horizontal_lines b (spec_origin b)))
           @ spec_stars b (spec_origin b)"
    by (rule draw_prims)
  have f: "filter is_Circle (prims_of b') = spec_stars b (spec_origin b)"
    unfolding p by (simp del: map_append)
  have s: "spec_stars b (spec_origin b)
         = spec_circles b (15 + 6 * 22 - (25 / 100) / 2, 0 + 0 * (237 / 10) - (25 / 100) / 2)
           @ spec_circles b (15 + 3 * 22 - (25 / 100) / 2, 0 + 3 * (237 / 10) - (25 / 100) / 2)
           @ spec_circles b (15 + 9 * 22 - (25 / 100) / 2, 0 + 3 * (237 / 10) - (25 / 100) / 2)"
    by (simp add: spec_stars_def spec_origin_def b)
  have l: "lines_vertical b - 1 = 6" using b(3) by simp
  from main_options_13_half b(1) l b(4) d f [unfolded s]
  show "\<exists>opt b b'. main_options ''13'' True False 10 = Some opt
         \<and> GoBoard_init opt = Inr b \<and> lines_vertical b - 1 = 6
         \<and> star_points b = [(3, 3), (9, 3), (6, 6), (3, 9), (9, 9)]
         \<and> draw b = Inr b'
         \<and> filter is_Circle (prims_of b')
             = spec_circles b (15 + 6 * 22 - (25 / 100) / 2, 0 + 0 * (237 / 10) - (25 / 100) / 2)
               @ spec_circles b (15 + 3 * 22 - (25 / 100) / 2, 0 + 3 * (237 / 10) - (25 / 100) / 2)
               @ spec_circles b (15 + 9 * 22 - (25 / 100) / 2, 0 + 3 * (237 / 10) - (25 / 100) / 2)"
    by blast
qed

theorem C6_star_point_centers_witness:
  "\<exists>opt b self'. main_options ''13'' True False 10 = Some opt \<and> GoBoard_init opt = Inr b
     \<and> draw_starpoints (blank b) [15, 0] = Inr self'
     \<and> prims_of self'
         = spec_circles b (15 + 6 * 22 - (25 / 100) / 2, 0 + 0 * (237 / 10) - (25 / 100) / 2)
           @ spec_circles b (15 + 3 * 22 - (25 / 100) / 2, 0 + 3 * (237 / 10) - (25 / 100) / 2)
           @ spec_circles b (15 + 9 * 22 - (25 / 100) / 2, 0 + 3 * (237 / 10) - (25 / 100) / 2)"
proof -
  let ?opt = "(DefaultOptions \<lparr>lines_horizontal = 13, lines_vertical = 13,
               star_points = [(3, 3), (9, 3), (6, 6), (3, 9), (9, 9)]\<rparr> True)
               \<lparr>border := True, rounded_corners := 10\<rparr>"
  have "half_board ?opt" "odd (lines_vertical ?opt)"
    by (simp_all add: DefaultOptions_def)
  from init_half [OF this] obtain b where b: "GoBoard_init ?opt = Inr b" "half_board b"
    "lines_vertical b = 7" "star_points b = [(3, 3), (9, 3), (6, 6), (3, 9), (9, 9)]"
    "multiple_lines_spacing b = 25 / 100" "spacing_horizontal b = 22"
    "spacing_vertical b = 237 / 10"
    by (auto simp: DefaultOptions_def)
  obtain d where d: "drawing (blank b) = Some d" "elements d = []"
    using blank_drawing by blast
  have hyp: "drawing (blank b) = Some d \<and> length [15, 0 :: real] = 2"
    using d by simp
  from C6_star_point_centers [of "blank b" d "[15, 0]"] hyp
  obtain self' where s: "draw_starpoints (blank b) [15, 0] = Inr self'"
    "prims_of self' = elements d
             @ concat (map (\<lambda>(gx, gy).
                  if half_board (blank b) then
                    if 0 \<le> gy - (lines_vertical (blank b) - 1) then
                      spec_circles (blank b)
                        ([15, 0] ! 0 + real_of_int gx * spacing_horizontal (blank b)
                           - multiple_lines_spacing (blank b) / 2,
                         [15, 0] ! 1
                           + real_of_int (gy - (lines_vertical (blank b) - 1)) * spacing_vertical (blank b)
                           - multiple_lines_spacing (blank b) / 2)
                    else []
                  else
                    if 0 \<le> gy then
                      spec_circles (blank b)
                        ([15, 0] ! 0 + real_of_int gx * spacing_horizontal (blank b)
                           - multiple_lines_spacing (blank b) / 2,
                         [15, 0] ! 1 + real_of_int gy * spacing_vertical (blank b)
                           - multiple_lines_spacing (blank b) / 2)
                    else [])
                (star_points (blank b)))"
    by blast
  have p: "prims_of self'
         = spec_circles b (15 + 6 * 22 - (25 / 100) / 2, 0 + 0 * (237 / 10) - (25 / 100) / 2)
           @ spec_circles b (15 + 3 * 22 - (25 / 100) / 2, 0 + 3 * (237 / 10) - (25 / 100) / 2)
           @ spec_circles b (15 + 9 * 22 - (25 / 100) / 2, 0 + 3 * (237 / 10) - (25 / 100) / 2)"
    unfolding s(2) by (simp add: d(2) b)
  from main_options_13_half b(1) s(1) p show ?thesis
    by blast
qed

text \<open>
  Claim C7. \<open>draw_starpoint\<close> adds exactly \<open>multiple_lines\<close> circles with the same centre;
  the circle of index \<open>l\<close> has the diameter
  \<open>star_diameter + (l - multiple_lines) * multiple_lines_spacing\<close>, of which svg takes
  the half as radius.
\<close>

theorem C7_star_circles:
  assumes "drawing self = Some d"
  shows "\<exists>self'. draw_starpoint self pos = Inr self'
     \<and> prims_of self' = elements d
         @ map (\<lambda>l. Circle pos
                  ((star_diameter self
                      + real_of_int (l - multiple_lines self) * multiple_lines_spacing self) / 2)
                  ''none'' (mark_stroke (colors self)) (linewidth self))
             (range_py (multiple_lines self))
     \<and> length (prims_of self') = length (elements d) + nat (multiple_lines self)"
proof -
  from assms have nn: "drawing self \<noteq> None" by simp
  have "prims_of (emit (spec_circles self pos) self) = elements d @ spec_circles self pos"
    using assms by (simp add: prims_of_emit [OF nn] prims_of_def)
  then show ?thesis
    by (simp add: draw_starpoint_emit [OF nn] spec_circles_def)
qed

theorem C7_star_circles_witness:
  "\<exists>opt b self'. main_options ''7'' False False 10 = Some opt \<and> GoBoard_init opt = Inr b
     \<and> draw_starpoint (blank b) (0, 0) = Inr self'
     \<and> prims_of self'
         = [Circle (0, 0) ((4 + (0 - 2) * (25 / 100)) / 2) ''none'' ''red'' (15 / 100),
            Circle (0, 0) ((4 + (1 - 2) * (25 / 100)) / 2) ''none'' ''red'' (15 / 100)]"
proof -
  let ?so = "\<lparr>lines_horizontal = 7, lines_vertical = 7,
        star_points = [(2, 2), (4, 2), (2, 4), (4, 4)]\<rparr>"
  let ?opt = "(DefaultOptions ?so False)\<lparr>border := True, rounded_corners := 10\<rparr>"
  have "\<not> half_board ?opt" by (simp add: DefaultOptions_def)
  from init_full [OF this] obtain b where b: "GoBoard_init ?opt = Inr b"
    "multiple_lines b = 2" "multiple_lines_spacing b = 25 / 100"
    "colors b = \<lparr>cut_stroke = ''black'', mark_stroke = ''red'', background = ''white''\<rparr>"
    "linewidth b = 15 / 100" "star_diameter b = 4"
    by (auto simp: DefaultOptions_def)
  obtain d where d: "drawing (blank b) = Some d" "elements d = []"
    using blank_drawing by blast
  from C7_star_circles [OF d(1), of "(0, 0)"]
  obtain self' where s: "draw_starpoint (blank b) (0, 0) = Inr self'"
    "prims_of self' = elements d
         @ map (\<lambda>l. Circle (0, 0)
                  ((star_diameter (blank b)
                      + real_of_int (l - multiple_lines (blank b)) * multiple_lines_spacing (blank b)) / 2)
                  ''none'' (mark_stroke (colors (blank b))) (linewidth (blank b)))
             (range_py (multiple_lines (blank b)))"
    by blast
  have p: "prims_of self'
         = [Circle (0, 0) ((4 + (0 - 2) * (25 / 100)) / 2) ''none'' ''red'' (15 / 100),
            Circle (0, 0) ((4 + (1 - 2) * (25 / 100)) / 2) ''none'' ''red'' (15 / 100)]"
    unfolding s(2) using d(2) b by (simp add: range_py_2)
  from main_options_7_full b(1) s(1) p show ?thesis
    by blast
qed

text \<open>
  Claim C8. The code does not do what the claim says: \<open>draw_test\<close> raises TypeError
  in the first round of its loop, for every object, because the call of
  \<open>draw_multiple_lines\<close> has five arguments for three parameters. No swatch row is
  drawn, and a run with the test flag (here for size 13 with the defaults) ends in
  that error.
\<close>

theorem C8_draw_test_raises:
  "draw_test self = Inl TypeError
   \<and> (\<exists>opt. main_options ''13'' False False 10 = Some opt \<and> run opt True = Inl TypeError)"
proof -
  have r: "range_py (int (length [a0, a1, a2, a3, a4, a5, a6, a7, a8, a9]))
             = 0 # map int [1..<10]"
    for a0 a1 a2 a3 a4 a5 a6 a7 a8 a9 :: "int \<times> real"
    by (simp add: range_py_def upt_conv_Cons)
  have t: "draw_test b = Inl TypeError" for b
    unfolding draw_test_def Let_def r
    by (simp add: add_def call_draw_multiple_lines_def)
  let ?opt = "(DefaultOptions \<lparr>lines_horizontal = 13, lines_vertical = 13,
               star_points = [(3, 3), (9, 3), (6, 6), (3, 9), (9, 9)]\<rparr> False)
               \<lparr>border := True, rounded_corners := 10\<rparr>"
  have m: "main_options ''13'' False False 10 = Some ?opt"
    by (simp add: main_options_def sizeOptions_def)
  have "\<not> half_board ?opt"
    by (simp add: DefaultOptions_def)
  from init_full [OF this] obtain b where "GoBoard_init ?opt = Inr b"
    by blast
  then have "run ?opt True = Inl TypeError"
    by (simp add: run_def t)
  with m t show ?thesis
    by blast
qed

text \<open>
  Claim C9. On a half board with the border enabled the drawing starts with the whole
  rounded rectangle at \<open>(0, - rounded_corners)\<close> of height
  \<open>height - linewidth + rounded_corners\<close>, followed by the cut line from \<open>(0, 0)\<close> to
  \<open>(width, 0)\<close>; everything after them is grid strokes and star circles, and the
  rectangle is the only rectangle.
\<close>

theorem C9_half_board_border:
  assumes "half_board b" "border b"
  shows "\<exists>b'. draw b = Inr b'
     \<and> prims_of b'
         = [Rect (0, - rounded_corners b)
              (width b - linewidth b, height b - linewidth b + rounded_corners b)
              (cut_stroke (colors b)) (linewidth b) (background (colors b))
              (rounded_corners b) (rounded_corners b),
            Line [0, 0] [width b, 0] (cut_stroke (colors b)) (linewidth b)]
           @ concat (map (spec_strokes b)
               (spec_vertical_lines b [margin b, 0] @ spec_horizontal_lines b [margin b, 0]))
           @ spec_stars b [margin b, 0]
     \<and> filter is_Rect (prims_of b')
         = [Rect (0, - rounded_corners b)
              (width b - linewidth b, height b - linewidth b + rounded_corners b)
              (cut_stroke (colors b)) (linewidth b) (background (colors b))
              (rounded_corners b) (rounded_corners b)]"
proof -
  obtain b' where d: "draw b = Inr b'"
    and p: "prims_of b' = spec_border b
           @ concat (map (spec_strokes b)
               (spec_vertical_lines b (spec_origin b)
                @ spec_horizontal_lines b (spec_origin b)))
           @ spec_stars b (spec_origin b)"
    by (rule draw_prims)
  have o: "spec_origin b = [margin b, 0]"
    using assms by (simp add: spec_origin_def)
  have sb: "spec_border b = [Rect (0, - rounded_corners b)
              (width b - linewidth b, height b - linewidth b + rounded_corners b)
              (cut_stroke (colors b)) (linewidth b) (background (colors b))
              (rounded_corners b) (rounded_corners b),
            Line [0, 0] [width b, 0] (cut_stroke (colors b)) (linewidth b)]"
    using assms by (simp add: spec_border_def)
  have fr: "filter is_Rect (prims_of b') = filter is_Rect (spec_border b)"
    unfolding p by (simp del: map_append)
  from d p [unfolded o sb] fr [unfolded sb] show ?thesis
    by simp
qed

theorem C9_half_board_border_witness:
  "\<exists>opt b b'. main_options ''13'' True False 10 = Some opt \<and> GoBoard_init opt = Inr b
     \<and> half_board b \<and> border b \<and> draw b = Inr b'
     \<and> take 2 (prims_of b')
         = [Rect (0, - 10) (294, 1672 / 10) ''black'' (15 / 100) ''white'' 10 10,
            Line [0, 0] [29415 / 100, 0] ''black'' (15 / 100)]"
proof -
  let ?opt = "(DefaultOptions \<lparr>lines_horizontal = 13, lines_vertical = 13,
               star_points = [(3, 3), (9, 3), (6, 6), (3, 9), (9, 9)]\<rparr> True)
               \<lparr>border := True, rounded_corners := 10\<rparr>"
  have "half_board ?opt" "odd (lines_vertical ?opt)"
    by (simp_all add: DefaultOptions_def)
  from init_half [OF this] obtain b where b: "GoBoard_init ?opt = Inr b" "half_board b"
    "border b" "linewidth b = 15 / 100"
    "colors b = \<lparr>cut_stroke = ''black'', mark_stroke = ''red'', background = ''white''\<rparr>"
    by (auto simp: DefaultOptions_def)
  from init_dims [OF b(1)] have dims: "width b = 29415 / 100" "height b = 15735 / 100"
    "rounded_corners b = 10"
    by (simp_all add: DefaultOptions_def)
  from C9_half_board_border [OF b(2,3)] obtain b' where s: "draw b = Inr b'"
    "prims_of b'
         = [Rect (0, - rounded_corners b)
              (width b - linewidth b, height b - linewidth b + rounded_corners b)
              (cut_stroke (colors b)) (linewidth b) (background (colors b))
              (rounded_corners b) (rounded_corners b),
            Line [0, 0] [width b, 0] (cut_stroke (colors b)) (linewidth b)]
           @ concat (map (spec_strokes b)
               (spec_vertical_lines b [margin b, 0] @ spec_horizontal_lines b [margin b, 0]))
           @ spec_stars b [margin b, 0]"
    by blast
  have p: "take 2 (prims_of b')
         = [Rect (0, - 10) (294, 1672 / 10) ''black'' (15 / 100) ''white'' 10 10,
            Line [0, 0] [29415 / 100, 0] ''black'' (15 / 100)]"
    unfolding s(2) by (simp add: b(4,5) dims)
  from main_options_13_half b(1,2,3) s(1) p show ?thesis
    by blast
qed

text \<open>
  Claim C10. On a full board whose star points have \<open>gy \<ge> 0\<close>, as all those of the size
  table have, no star point is left out: the circles of the drawing are those of every
  configured point, \<open>multiple_lines\<close> times the number of points in all, each with fill
  \<^verbatim>\<open>none\<close> and the mark colour.
\<close>

theorem C10_full_board_circles:
  "(\<not> half_board opt \<and> (\<forall>p \<in> set (star_points opt). 0 \<le> snd p) \<and> 0 \<le> multiple_lines opt \<longrightarrow>
      (\<exists>b b'. GoBoard_init opt = Inr b \<and> draw b = Inr b'
         \<and> filter is_Circle (prims_of b')
             = concat (map (\<lambda>(gx, gy). spec_circles b
                   (margin opt + real_of_int gx * spacing_horizontal opt
                      - multiple_lines_spacing opt / 2,
                    margin opt + real_of_int gy * spacing_vertical opt
                      - multiple_lines_spacing opt / 2))
                 (star_points opt))
         \<and> int (length (filter is_Circle (prims_of b')))
             = multiple_lines opt * int (length (star_points opt))
         \<and> (\<forall>c \<in> set (filter is_Circle (prims_of b')).
               \<exists>pos r. c = Circle pos r ''none'' (mark_stroke (colors opt)) (linewidth opt))))
   \<and> (\<forall>key so. sizeOptions key = Some so \<longrightarrow> (\<forall>p \<in> set (star_points so). 0 \<le> snd p))"
proof (intro conjI impI allI)
  assume a: "\<not> half_board opt \<and> (\<forall>p \<in> set (star_points opt). 0 \<le> snd p) \<and> 0 \<le> multiple_lines opt"
  then have hb: "\<not> half_board opt" and nn: "\<forall>p \<in> set (star_points opt). 0 \<le> snd p"
    and ml: "0 \<le> multiple_lines opt"
    by simp_all
  from init_full [OF hb] obtain b where b: "GoBoard_init opt = Inr b" "\<not> half_board b"
    "star_points b = star_points opt" "multiple_lines b = multiple_lines opt"
    "multiple_lines_spacing b = multiple_lines_spacing opt"
    "spacing_horizontal b = spacing_horizontal opt" "spacing_vertical b = spacing_vertical opt"
    "margin b = margin opt" "colors b = colors opt" "linewidth b = linewidth opt"
    by blast
  obtain b' where d: "draw b = Inr b'"
    and p: "prims_of b' = spec_border b
           @ concat (map (spec_strokes b)
               (spec_vertical_lines b (spec_origin b)
                @ spec_horizontal_lines b (spec_origin b)))
           @ spec_stars b (spec_origin b)"
    by (rule draw_prims)
  let ?cs = "concat (map (\<lambda>(gx, gy). spec_circles b
                   (margin opt + real_of_int gx * spacing_horizontal opt
                      - multiple_lines_spacing opt / 2,
                    margin opt + real_of_int gy * spacing_vertical opt
                      - multiple_lines_spacing opt / 2))
                 (star_points opt))"
  have f: "filter is_Circle (prims_of b') = spec_stars b (spec_origin b)"
    unfolding p by (simp del: map_append)
  have s: "spec_stars b (spec_origin b) = ?cs"
    unfolding spec_stars_def b(3)
    by (rule arg_cong [where f = concat], rule map_cong)
      (use nn b in \<open>auto simp: Let_def spec_origin_def\<close>)
  have len: "length ?cs = nat (multiple_lines opt) * length (star_points opt)"
    using b(4) by (induction "star_points opt") (simp_all add: length_concat comp_def split_beta sum_list_triv)
  have n: "int (length ?cs) = multiple_lines opt * int (length (star_points opt))"
    unfolding len using ml by simp
  have c: "\<forall>c \<in> set ?cs. \<exists>pos r. c = Circle pos r ''none'' (mark_stroke (colors opt)) (linewidth opt)"
    using b(9,10) by (auto simp: spec_circles_def)
  from b(1) d f [unfolded s] n c
  show "\<exists>b b'. GoBoard_init opt = Inr b \<and> draw b = Inr b'
         \<and> filter is_Circle (prims_of b')
             = concat (map (\<lambda>(gx, gy). spec_circles b
                   (margin opt + real_of_int gx * spacing_horizontal opt
                      - multiple_lines_spacing opt / 2,
                    margin opt + real_of_int gy * spacing_vertical opt
                      - multiple_lines_spacing opt / 2))
                 (star_points opt))
         \<and> int (length (filter is_Circle (prims_of b')))
             = multiple_lines opt * int (length (star_points opt))
         \<and> (\<forall>c \<in> set (filter is_Circle (prims_of b')).
               \<exists>pos r. c = Circle pos r ''none'' (mark_stroke (colors opt)) (linewidth opt))"
    by (metis (no_types, lifting))
next
  fix key so
  assume "sizeOptions key = Some so"
  then show "\<forall>p \<in> set (star_points so). 0 \<le> snd p"
    by (auto simp: sizeOptions_def split: if_splits)
qed

theorem C10_full_board_circles_witness:
  "\<exists>opt b b'. main_options ''9'' False False 10 = Some opt
     \<and> \<not> half_board opt \<and> (\<forall>p \<in> set (star_points opt). 0 \<le> snd p) \<and> 0 \<le> multiple_lines opt
     \<and> GoBoard_init opt = Inr b \<and> draw b = Inr b'
     \<and> int (length (filter is_Circle (prims_of b'))) = 2 * 5"
proof -
  let ?opt = "(DefaultOptions \<lparr>lines_horizontal = 9, lines_vertical = 9,
               star_points = [(2, 2), (6, 2), (4, 4), (2, 6), (6, 6)]\<rparr> False)
               \<lparr>border := True, rounded_corners := 10\<rparr>"
  have hyp: "\<not> half_board ?opt \<and> (\<forall>p \<in> set (star_points ?opt). 0 \<le> snd p)
               \<and> 0 \<le> multiple_lines ?opt"
    by (simp add: DefaultOptions_def)
  from C10_full_board_circles [of ?opt] hyp obtain b b' where
    s: "GoBoard_init ?opt = Inr b" "draw b = Inr b'"
    "int (length (filter is_Circle (prims_of b')))
       = multiple_lines ?opt * int (length (star_points ?opt))"
    by blast
  have "multiple_lines ?opt * int (length (star_points ?opt)) = 2 * 5"
    by (simp add: DefaultOptions_def)
  with s(3) have n: "int (length (filter is_Circle (prims_of b'))) = 2 * 5"
    by simp
  from main_options_9_full hyp s(1,2) n show ?thesis
    by blast
qed

end
